theory Spec2Isabelle
  imports Complex_Main "HOL-Library.Multiset"
begin

section \<open>The race data provider, as the dashboard sees it\<close>

text \<open>
  The dashboard (\<^verbatim>\<open>src/f1_dashboard.py\<close>, class \<^verbatim>\<open>F1Dashboard\<close>) reads everything
  from the external library \<^verbatim>\<open>fastf1\<close>. One row of \<^verbatim>\<open>session.results\<close> carries the
  columns the aggregation routines read. \<^verbatim>\<open>Position\<close> is a float column in which a
  missing value is NaN: it is \<open>None\<close> here. \<^verbatim>\<open>Points\<close> is a float column as well; the
  model adds points as exact rationals.
\<close>

record result_row =
  Abbreviation :: string
  FullName :: string
  TeamName :: string
  Position :: "rat option"
  Points :: rat
  Status :: string

text \<open>A loaded session: \<^verbatim>\<open>session.event['EventName']\<close> and \<^verbatim>\<open>session.results\<close>.\<close>

record session =
  EventName :: string
  results :: "result_row list"

text \<open>
  One row of the event schedule: \<^verbatim>\<open>RoundNumber\<close> and \<^verbatim>\<open>EventDate\<close> (a timestamp,
  \<open>None\<close> for the missing value NaT).
\<close>

record event =
  RoundNumber :: int
  EventDate :: "int option"

text \<open>
  The world outside the program. \<open>get_event_schedule y\<close> is
  \<^verbatim>\<open>fastf1.get_event_schedule(y)\<close>, \<open>None\<close> when it raises.
  \<open>get_session y r\<close> is \<^verbatim>\<open>fastf1.get_session(y, r, 'R')\<close> followed by
  \<^verbatim>\<open>session.load()\<close>, \<open>None\<close> when either raises. \<open>clock n\<close> is the value of the
  \<open>n\<close>-th call of \<^verbatim>\<open>datetime.now()\<close> in a run, and \<open>current_year\<close> the field
  \<^verbatim>\<open>self.current_year\<close>. \<open>sort_values_Position\<close> is the library call
  \<^verbatim>\<open>DataFrame.sort_values('Position')\<close> on the rows of a result frame: pandas sorts with
  an algorithm that is not stable, so the program does not fix the order in which rows of
  equal position come out, and the sort is taken as it is given.
\<close>

record provider =
  get_event_schedule :: "int \<Rightarrow> event list option"
  get_session :: "int \<Rightarrow> int \<Rightarrow> session option"
  clock :: "nat \<Rightarrow> int"
  current_year :: int
  sort_values_Position :: "result_row list \<Rightarrow> result_row list"

text \<open>
  \<^verbatim>\<open>get_race_schedule\<close>: \<^verbatim>\<open>year = year or self.current_year\<close> replaces a falsy year
  (0) by the current one; an exception of the provider becomes \<open>None\<close>.
\<close>

definition get_race_schedule :: "provider \<Rightarrow> int \<Rightarrow> event list option" where
  "get_race_schedule env year =
     get_event_schedule env (if year = 0 then current_year env else year)"

text \<open>
  \<^verbatim>\<open>race_schedule[race_schedule['EventDate'] < pd.Timestamp(datetime.now())]['RoundNumber'].tolist()\<close>;
  a comparison with NaT is false.
\<close>

definition is_completed :: "int \<Rightarrow> event \<Rightarrow> bool" where
  "is_completed now e = (case EventDate e of None \<Rightarrow> False | Some t \<Rightarrow> t < now)"

definition completed_rounds :: "event list \<Rightarrow> int \<Rightarrow> int list" where
  "completed_rounds race_schedule now = map RoundNumber (filter (is_completed now) race_schedule)"

section \<open>Python dictionaries\<close>

text \<open>
  A \<^verbatim>\<open>dict\<close> keeps its keys in insertion order: an association list with distinct
  keys. \<open>dict_set\<close> is \<^verbatim>\<open>d[k] = v\<close>: it overwrites in place or appends.
\<close>

type_synonym ('k, 'v) dict = "('k \<times> 'v) list"

fun dict_set :: "'k \<Rightarrow> 'v \<Rightarrow> ('k, 'v) dict \<Rightarrow> ('k, 'v) dict" where
  "dict_set k v [] = [(k, v)]"
| "dict_set k v ((k', v') # d) = (if k' = k then (k, v) # d else (k', v') # dict_set k v d)"

definition dict_get :: "('k, 'v) dict \<Rightarrow> 'k \<Rightarrow> 'v option" where
  "dict_get d k = map_of d k"

text \<open>
  \<^verbatim>\<open>if driver in counts: counts[driver] += 1 else: counts[driver] = 1\<close>
\<close>

definition count_up :: "string \<Rightarrow> (string, nat) dict \<Rightarrow> (string, nat) dict" where
  "count_up driver counts =
     (case dict_get counts driver of
        Some c \<Rightarrow> dict_set driver (c + 1) counts
      | None \<Rightarrow> dict_set driver 1 counts)"

fun count_all :: "string list \<Rightarrow> (string, nat) dict \<Rightarrow> (string, nat) dict" where
  "count_all [] counts = counts"
| "count_all (driver # drivers) counts = count_all drivers (count_up driver counts)"

text \<open>
  \<^verbatim>\<open>sorted(counts.items(), key=lambda x: x[1], reverse=True)\<close>: a stable sort by
  descending count.
\<close>

definition sorted_counts :: "(string, nat) dict \<Rightarrow> (string \<times> nat) list" where
  "sorted_counts counts = sort_key (\<lambda>x. - int (snd x)) counts"

definition total :: "(string \<times> nat) list \<Rightarrow> nat" where
  "total tally = sum_list (map snd tally)"

text \<open>The count a tally holds for a driver, 0 for a driver it does not list.\<close>

definition count_of :: "(string \<times> nat) list \<Rightarrow> string \<Rightarrow> nat" where
  "count_of tally driver = (case dict_get tally driver of None \<Rightarrow> 0 | Some n \<Rightarrow> n)"

text \<open>Every stored count is at least one.\<close>

definition positive :: "(string \<times> nat) list \<Rightarrow> bool" where
  "positive counts = (\<forall>p \<in> set counts. 1 \<le> snd p)"

section \<open>count_podiums\<close>

text \<open>
  \<^verbatim>\<open>sort_values('Position')\<close> sorts ascending and puts NaN last: \<open>position_le\<close> is
  that order on positions. What the library guarantees of the sort is \<open>sorts_by_Position\<close>:
  the result holds the same rows, in ascending position. Nothing is fixed about rows of
  equal position.
\<close>

definition position_le :: "rat option \<Rightarrow> rat option \<Rightarrow> bool" where
  "position_le a b =
     (case b of None \<Rightarrow> True
      | Some y \<Rightarrow> (case a of None \<Rightarrow> False | Some x \<Rightarrow> x \<le> y))"


text \<open>\<^verbatim>\<open>session.results.sort_values('Position').head(3)['Abbreviation'].tolist()\<close>\<close>

definition podium_rows :: "provider \<Rightarrow> session \<Rightarrow> result_row list" where
  "podium_rows env s = take 3 (sort_values_Position env (results s))"

definition podium_drivers :: "provider \<Rightarrow> session \<Rightarrow> string list" where
  "podium_drivers env s = map Abbreviation (podium_rows env s)"

text \<open>
  The loop over \<^verbatim>\<open>completed_rounds\<close>: the \<^verbatim>\<open>try\<close> body runs for a session that loads,
  the \<^verbatim>\<open>except\<close> branch prints and continues.
\<close>

fun podium_loop :: "provider \<Rightarrow> int \<Rightarrow> int list \<Rightarrow> (string, nat) dict \<Rightarrow> (string, nat) dict" where
  "podium_loop env year [] podium_counts = podium_counts"
| "podium_loop env year (round_num # rounds) podium_counts =
     (case get_session env year round_num of
        None \<Rightarrow> podium_loop env year rounds podium_counts
      | Some s \<Rightarrow> podium_loop env year rounds (count_all (podium_drivers env s) podium_counts))"

text \<open>\<^verbatim>\<open>count_podiums\<close> returns nothing (\<open>None\<close>) when the schedule cannot be read.\<close>

definition count_podiums :: "provider \<Rightarrow> int \<Rightarrow> (string \<times> nat) list option" where
  "count_podiums env year =
     (case get_race_schedule env year of
        None \<Rightarrow> None
      | Some race_schedule \<Rightarrow>
          Some (sorted_counts
                 (podium_loop env year (completed_rounds race_schedule (clock env 0)) [])))"

text \<open>The sessions of a list of rounds that load, in order.\<close>

fun loaded_sessions :: "provider \<Rightarrow> int \<Rightarrow> int list \<Rightarrow> session list" where
  "loaded_sessions env year [] = []"
| "loaded_sessions env year (round_num # rounds) =
     (case get_session env year round_num of
        None \<Rightarrow> loaded_sessions env year rounds
      | Some s \<Rightarrow> s # loaded_sessions env year rounds)"

section \<open>count_dnfs\<close>

text \<open>
  \<^verbatim>\<open>session.results[~session.results['Status'].isin(['Finished'])]['Abbreviation'].tolist()\<close>
\<close>

definition dnf_drivers :: "session \<Rightarrow> string list" where
  "dnf_drivers s = map Abbreviation (filter (\<lambda>r. Status r \<notin> set [''Finished'']) (results s))"

fun dnf_loop :: "provider \<Rightarrow> int \<Rightarrow> int list \<Rightarrow> (string, nat) dict \<Rightarrow> (string, nat) dict" where
  "dnf_loop env year [] dnf_counts = dnf_counts"
| "dnf_loop env year (round_num # rounds) dnf_counts =
     (case get_session env year round_num of
        None \<Rightarrow> dnf_loop env year rounds dnf_counts
      | Some s \<Rightarrow> dnf_loop env year rounds (count_all (dnf_drivers s) dnf_counts))"

definition count_dnfs :: "provider \<Rightarrow> int \<Rightarrow> (string \<times> nat) list option" where
  "count_dnfs env year =
     (case get_race_schedule env year of
        None \<Rightarrow> None
      | Some race_schedule \<Rightarrow>
          Some (sorted_counts
                 (dnf_loop env year (completed_rounds race_schedule (clock env 0)) [])))"

section \<open>compare_drivers\<close>

text \<open>The four counters that are set to 0 at the start of every year.\<close>

record counters =
  driver1_points :: rat
  driver2_points :: rat
  driver1_wins :: nat
  driver2_wins :: nat

definition zero_counters :: counters where
  "zero_counters = \<lparr>driver1_points = 0, driver2_points = 0, driver1_wins = 0, driver2_wins = 0\<rparr>"

text \<open>\<^verbatim>\<open>session.results[session.results['Abbreviation'] == driver]\<close>\<close>

definition driver_result :: "string \<Rightarrow> session \<Rightarrow> result_row list" where
  "driver_result driver s = filter (\<lambda>r. Abbreviation r = driver) (results s)"

text \<open>
  The body of the \<^verbatim>\<open>try\<close> for one loaded session: \<^verbatim>\<open>.values[0]\<close> reads the first
  matching row, and only when the selection is not empty.
\<close>

definition compare_round :: "string \<Rightarrow> string \<Rightarrow> session \<Rightarrow> counters \<Rightarrow> counters" where
  "compare_round driver1 driver2 s c =
     (let c1 = (case driver_result driver1 s of
                  [] \<Rightarrow> c
                | r # _ \<Rightarrow> c\<lparr>driver1_points := driver1_points c + Points r,
                              driver1_wins := (if Position r = Some 1 then driver1_wins c + 1
                                               else driver1_wins c)\<rparr>)
      in (case driver_result driver2 s of
            [] \<Rightarrow> c1
          | r # _ \<Rightarrow> c1\<lparr>driver2_points := driver2_points c1 + Points r,
                         driver2_wins := (if Position r = Some 1 then driver2_wins c1 + 1
                                          else driver2_wins c1)\<rparr>))"

fun compare_loop :: "provider \<Rightarrow> int \<Rightarrow> string \<Rightarrow> string \<Rightarrow> int list \<Rightarrow> counters \<Rightarrow> counters" where
  "compare_loop env year driver1 driver2 [] c = c"
| "compare_loop env year driver1 driver2 (round_num # rounds) c =
     (case get_session env year round_num of
        None \<Rightarrow> compare_loop env year driver1 driver2 rounds c
      | Some s \<Rightarrow> compare_loop env year driver1 driver2 rounds (compare_round driver1 driver2 s c))"

text \<open>
  The record appended for a year is a dict literal with the keys \<^verbatim>\<open>'Year'\<close>,
  \<^verbatim>\<open>f'{driver1} Points'\<close>, \<^verbatim>\<open>f'{driver2} Points'\<close>, \<^verbatim>\<open>f'{driver1} Wins'\<close> and
  \<^verbatim>\<open>f'{driver2} Wins'\<close>, filled in this order; a repeated key keeps its place and takes
  the later value.
\<close>

datatype cell = Year_cell int | Points_cell rat | Wins_cell nat

definition comparison_record :: "string \<Rightarrow> string \<Rightarrow> int \<Rightarrow> counters \<Rightarrow> (string, cell) dict" where
  "comparison_record driver1 driver2 year c =
     dict_set (driver2 @ '' Wins'') (Wins_cell (driver2_wins c))
    (dict_set (driver1 @ '' Wins'') (Wins_cell (driver1_wins c))
    (dict_set (driver2 @ '' Points'') (Points_cell (driver2_points c))
    (dict_set (driver1 @ '' Points'') (Points_cell (driver1_points c))
    (dict_set ''Year'' (Year_cell year) []))))"

text \<open>The counters of one year whose schedule was read, with the clock value \<open>now\<close>.\<close>

definition season_counters ::
  "provider \<Rightarrow> string \<Rightarrow> string \<Rightarrow> int \<Rightarrow> event list \<Rightarrow> int \<Rightarrow> counters" where
  "season_counters env driver1 driver2 year race_schedule now =
     compare_loop env year driver1 driver2 (completed_rounds race_schedule now) zero_counters"

text \<open>
  The loop over \<^verbatim>\<open>years\<close>. \<open>n\<close> counts the calls of \<^verbatim>\<open>datetime.now()\<close> made so far: a
  year whose schedule is \<^verbatim>\<open>None\<close> is left by \<^verbatim>\<open>continue\<close> before the clock is read.
\<close>

fun compare_years ::
  "provider \<Rightarrow> string \<Rightarrow> string \<Rightarrow> nat \<Rightarrow> int list \<Rightarrow> (string, cell) dict list" where
  "compare_years env driver1 driver2 n [] = []"
| "compare_years env driver1 driver2 n (year # years) =
     (case get_race_schedule env year of
        None \<Rightarrow> compare_years env driver1 driver2 n years
      | Some race_schedule \<Rightarrow>
          comparison_record driver1 driver2 year
            (season_counters env driver1 driver2 year race_schedule (clock env n))
          # compare_years env driver1 driver2 (Suc n) years)"

definition compare_drivers :: "provider \<Rightarrow> string \<Rightarrow> string \<Rightarrow> int list \<Rightarrow> (string, cell) dict list" where
  "compare_drivers env driver1 driver2 years = compare_years env driver1 driver2 0 years"

section \<open>export_full_season_details\<close>

text \<open>One dict appended to \<^verbatim>\<open>all_results\<close>.\<close>

record export_row =
  Round :: int
  Race :: string
  Driver :: string
  FullName_out :: string
  Team :: string
  Position_out :: "rat option"
  Points_out :: rat
  Status_out :: string
  CumulativePoints :: rat

record export_state =
  all_results :: "export_row list"
  driver_points :: "(string, rat) dict"
  team_points :: "(string, rat) dict"

text \<open>
  \<^verbatim>\<open>if key not in d: d[key] = 0\<close> followed by \<^verbatim>\<open>d[key] += points\<close>
\<close>

definition add_points :: "string \<Rightarrow> rat \<Rightarrow> (string, rat) dict \<Rightarrow> (string, rat) dict" where
  "add_points key points d =
     (case dict_get d key of
        None \<Rightarrow> dict_set key (0 + points) (dict_set key 0 d)
      | Some v \<Rightarrow> dict_set key (v + points) d)"

text \<open>
  \<^verbatim>\<open>d[key]\<close> for a key that is present (the only use reads the key just written; the
  other branch is never reached, see \<open>dict_get_add_points\<close>).
\<close>

definition dict_item :: "(string, rat) dict \<Rightarrow> string \<Rightarrow> rat" where
  "dict_item d key = (case dict_get d key of Some v \<Rightarrow> v | None \<Rightarrow> 0)"

definition export_result :: "int \<Rightarrow> string \<Rightarrow> result_row \<Rightarrow> export_state \<Rightarrow> export_state" where
  "export_result round_num race_name result st =
     (let driver = Abbreviation result;
          team = TeamName result;
          points = Points result;
          dp = add_points driver points (driver_points st);
          tp = add_points team points (team_points st)
      in \<lparr>all_results = all_results st @
            [\<lparr>Round = round_num, Race = race_name, Driver = driver,
              FullName_out = FullName result, Team = team,
              Position_out = Position result, Points_out = points,
              Status_out = Status result, CumulativePoints = dict_item dp driver\<rparr>],
          driver_points = dp, team_points = tp\<rparr>)"

fun export_results :: "int \<Rightarrow> string \<Rightarrow> result_row list \<Rightarrow> export_state \<Rightarrow> export_state" where
  "export_results round_num race_name [] st = st"
| "export_results round_num race_name (result # rest) st =
     export_results round_num race_name rest (export_result round_num race_name result st)"

fun export_loop :: "provider \<Rightarrow> int \<Rightarrow> int list \<Rightarrow> export_state \<Rightarrow> export_state" where
  "export_loop env year [] st = st"
| "export_loop env year (round_num # rounds) st =
     (case get_session env year round_num of
        None \<Rightarrow> export_loop env year rounds st
      | Some s \<Rightarrow> export_loop env year rounds (export_results round_num (EventName s) (results s) st))"

definition empty_export :: export_state where
  "empty_export = \<lparr>all_results = [], driver_points = [], team_points = []\<rparr>"

text \<open>\<^verbatim>\<open>sorted(points.items(), key=lambda x: x[1], reverse=True)\<close>\<close>

definition standings :: "(string, rat) dict \<Rightarrow> (string \<times> rat) list" where
  "standings points = sort_key (\<lambda>x. - snd x) points"

text \<open>
  The function returns \<^verbatim>\<open>results_df, driver_standings, team_standings\<close>, or nothing
  when the schedule cannot be read.
\<close>

definition export_full_season_details ::
  "provider \<Rightarrow> int \<Rightarrow> (export_row list \<times> (string \<times> rat) list \<times> (string \<times> rat) list) option" where
  "export_full_season_details env year =
     (case get_race_schedule env year of
        None \<Rightarrow> None
      | Some race_schedule \<Rightarrow>
          (let st = export_loop env year (completed_rounds race_schedule (clock env 0)) empty_export
           in Some (all_results st, standings (driver_points st), standings (team_points st))))"

section \<open>Notions used to state the properties\<close>

text \<open>The same provider with every schedule restricted to the events that satisfy \<open>P\<close>.\<close>

definition keep_events :: "(event \<Rightarrow> bool) \<Rightarrow> provider \<Rightarrow> provider" where
  "keep_events P env =
     env\<lparr>get_event_schedule := \<lambda>y. map_option (filter P) (get_event_schedule env y)\<rparr>"

text \<open>
  What one loaded round gives a named driver in a comparison: the points and the win of
  the first row with exactly that abbreviation, nothing when there is no such row.
\<close>

definition round_points :: "string \<Rightarrow> session \<Rightarrow> rat" where
  "round_points driver s = (case driver_result driver s of [] \<Rightarrow> 0 | r # _ \<Rightarrow> Points r)"

definition round_win :: "string \<Rightarrow> session \<Rightarrow> nat" where
  "round_win driver s =
     (case driver_result driver s of [] \<Rightarrow> 0 | r # _ \<Rightarrow> if Position r = Some 1 then 1 else 0)"

text \<open>
  The record of one year in a comparison, for the clock value \<open>now\<close> read in that year
  (the empty dict stands for a year without schedule, which gets no record).
\<close>

definition season_record :: "provider \<Rightarrow> string \<Rightarrow> string \<Rightarrow> int \<Rightarrow> int \<Rightarrow> (string, cell) dict" where
  "season_record env driver1 driver2 year now =
     (case get_race_schedule env year of
        None \<Rightarrow> []
      | Some race_schedule \<Rightarrow>
          comparison_record driver1 driver2 year
            (season_counters env driver1 driver2 year race_schedule now))"

text \<open>The points of a driver in a list of result rows.\<close>

definition points_of :: "string \<Rightarrow> result_row list \<Rightarrow> rat" where
  "points_of driver rows = sum_list (map Points (filter (\<lambda>r. Abbreviation r = driver) rows))"

text \<open>
  The cumulative points expected for the rows of successive rounds: for a row of a
  round, the points of its driver over the rounds up to and including that round.
  \<open>earlier\<close> holds the rows of the rounds already passed.
\<close>

fun expected_cumulative :: "result_row list \<Rightarrow> result_row list list \<Rightarrow> rat list" where
  "expected_cumulative earlier [] = []"
| "expected_cumulative earlier (rows # later) =
     map (\<lambda>r. points_of (Abbreviation r) (earlier @ rows)) rows
     @ expected_cumulative (earlier @ rows) later"

text \<open>
  The running totals row by row: for each row, the points of its driver over the rows up
  to and including that row. \<open>earlier\<close> holds the rows already passed.
\<close>

fun row_cumulative :: "result_row list \<Rightarrow> result_row list \<Rightarrow> rat list" where
  "row_cumulative earlier [] = []"
| "row_cumulative earlier (r # rest) =
     points_of (Abbreviation r) (earlier @ [r]) # row_cumulative (earlier @ [r]) rest"

section \<open>A small season used to run the definitions\<close>

text \<open>A sort that \<open>sorts_by_Position\<close> admits: insertion, which keeps the order of ties.\<close>

fun insort_Position :: "result_row \<Rightarrow> result_row list \<Rightarrow> result_row list" where
  "insort_Position r [] = [r]"
| "insort_Position r (y # ys) =
     (if position_le (Position r) (Position y) then r # y # ys else y # insort_Position r ys)"

definition insertion_sort_Position :: "result_row list \<Rightarrow> result_row list" where
  "insertion_sort_Position rows = foldr insort_Position rows []"

definition row :: "string \<Rightarrow> string \<Rightarrow> rat option \<Rightarrow> rat \<Rightarrow> string \<Rightarrow> result_row" where
  "row abbr team pos pts st =
     \<lparr>Abbreviation = abbr, FullName = abbr, TeamName = team, Position = pos, Points = pts,
      Status = st\<rparr>"

definition race_a :: session where
  "race_a = \<lparr>EventName = ''Race A'', results =
     [row ''VER'' ''Red Bull'' (Some 1) 25 ''Finished'',
      row ''HAM'' ''Mercedes'' (Some 2) 18 ''Finished'',
      row ''PER'' ''Red Bull'' (Some 3) 15 ''Finished'',
      row ''ALO'' ''Alpine'' (Some 9) 2 ''Finished'']\<rparr>"

definition race_b :: session where
  "race_b = \<lparr>EventName = ''Race B'', results =
     [row ''VER'' ''Red Bull'' (Some 1) 25 ''Finished'',
      row ''HAM'' ''Mercedes'' None 0 ''DNF'']\<rparr>"

text \<open>
  Year 2021 has five scheduled rounds: 1 and 3 load, 2 fails to load, 4 lies in the
  future and 5 has no date. Year 2022 has one round. No other year has a schedule.
\<close>

definition season :: provider where
  "season = \<lparr>
     get_event_schedule = (\<lambda>y.
       if y = 2021 then Some [\<lparr>RoundNumber = 1, EventDate = Some 100\<rparr>,
                              \<lparr>RoundNumber = 2, EventDate = Some 200\<rparr>,
                              \<lparr>RoundNumber = 3, EventDate = Some 300\<rparr>,
                              \<lparr>RoundNumber = 4, EventDate = Some 900\<rparr>,
                              \<lparr>RoundNumber = 5, EventDate = None\<rparr>]
       else if y = 2022 then Some [\<lparr>RoundNumber = 1, EventDate = Some 400\<rparr>]
       else None),
     get_session = (\<lambda>y r.
       if y = 2021 \<and> r = 1 then Some race_a
       else if y = 2021 \<and> r = 3 then Some race_b
       else if y = 2022 \<and> r = 1 then Some race_a
       else None),
     clock = (\<lambda>n. 500),
     current_year = 2022,
     sort_values_Position = insertion_sort_Position\<rparr>"


text \<open>
  A round in which a car was shared: the same abbreviation stands on two rows.
\<close>

definition race_c :: session where
  "race_c = \<lparr>EventName = ''Race C'', results =
     [row ''FAN'' ''Ferrari'' (Some 1) 10 ''Finished'',
      row ''MOS'' ''Maserati'' (Some 2) 10 ''Finished'',
      row ''FAN'' ''Ferrari'' (Some 3) 5 ''Finished'']\<rparr>"

definition shared_drive_season :: provider where
  "shared_drive_season = \<lparr>
     get_event_schedule = (\<lambda>y. Some [\<lparr>RoundNumber = 1, EventDate = Some 100\<rparr>]),
     get_session = (\<lambda>y r. Some race_c),
     clock = (\<lambda>n. 500),
     current_year = 2022,
     sort_values_Position = insertion_sort_Position\<rparr>"

section \<open>Dictionaries and tallies: basic facts\<close>

lemma map_of_dict_set: "map_of (dict_set k v d) = (map_of d)(k \<mapsto> v)"
  by (induction d) (auto simp: fun_eq_iff)

lemma dict_get_dict_set: "dict_get (dict_set k v d) k' = (if k' = k then Some v else dict_get d k')"
  by (simp add: dict_get_def map_of_dict_set)

lemma keys_dict_set: "fst ` set (dict_set k v d) = insert k (fst ` set d)"
proof -
  have "dom (map_of (dict_set k v d)) = insert k (dom (map_of d))"
    by (simp add: map_of_dict_set)
  then show ?thesis
    by (simp add: dom_map_of_conv_image_fst)
qed

lemma distinct_dict_set: "distinct (map fst d) \<Longrightarrow> distinct (map fst (dict_set k v d))"
proof (induction d)
  case Nil
  show ?case by simp
next
  case (Cons p d)
  obtain k' v' where p: "p = (k', v')" by (cases p)
  have "set (map fst (dict_set k v d)) = insert k (fst ` set d)"
    using keys_dict_set [of k v d] by simp
  with Cons p show ?case by auto
qed

lemma sum_dict_set_new:
  "map_of d k = None \<Longrightarrow> sum_list (map snd (dict_set k v d)) = sum_list (map snd d) + (v::'a::comm_monoid_add)"
  by (induction d) (auto simp: add.assoc split: if_splits)

lemma sum_dict_set_old:
  "map_of d k = Some c \<Longrightarrow> distinct (map fst d) \<Longrightarrow>
   sum_list (map snd (dict_set k (c + v) d)) = sum_list (map snd d) + (v::'a::comm_monoid_add)"
proof (induction d)
  case Nil
  then show ?case by simp
next
  case (Cons p d)
  obtain k' v' where p: "p = (k', v')" by (cases p)
  show ?case
  proof (cases "k' = k")
    case True
    with Cons.prems p have "v' = c" by simp
    with True p show ?thesis by (simp add: ac_simps)
  next
    case False
    with Cons p show ?thesis by (simp add: ac_simps)
  qed
qed

lemma total_count_up:
  assumes "distinct (map fst counts)"
  shows "total (count_up d counts) = total counts + 1"
proof (cases "map_of counts d")
  case None
  then show ?thesis
    by (simp add: total_def count_up_def dict_get_def sum_dict_set_new)
next
  case (Some c)
  from sum_dict_set_old [OF Some assms, of 1] Some show ?thesis
    by (simp add: total_def count_up_def dict_get_def)
qed

lemma distinct_count_up: "distinct (map fst counts) \<Longrightarrow> distinct (map fst (count_up d counts))"
  by (simp add: count_up_def distinct_dict_set split: option.splits)

lemma keys_count_up: "fst ` set (count_up d counts) = insert d (fst ` set counts)"
  by (simp add: count_up_def keys_dict_set split: option.splits)

lemma distinct_count_all: "distinct (map fst counts) \<Longrightarrow> distinct (map fst (count_all ds counts))"
  by (induction ds arbitrary: counts) (simp_all add: distinct_count_up)

lemma total_count_all:
  "distinct (map fst counts) \<Longrightarrow> total (count_all ds counts) = total counts + length ds"
  by (induction ds arbitrary: counts) (simp_all add: distinct_count_up total_count_up)

lemma keys_count_all: "fst ` set (count_all ds counts) = fst ` set counts \<union> set ds"
  by (induction ds arbitrary: counts) (simp_all add: keys_count_up)

lemma set_dict_set: "set (dict_set k v d) \<subseteq> insert (k, v) (set d)"
  by (induction d) (auto split: if_splits)

lemma positive_count_up: "positive counts \<Longrightarrow> positive (count_up d counts)"
  unfolding positive_def count_up_def
  using set_dict_set [of d _ counts] by (fastforce split: option.splits)

lemma positive_count_all: "positive counts \<Longrightarrow> positive (count_all ds counts)"
  by (induction ds arbitrary: counts) (simp_all add: positive_count_up)

lemma sum_insort_key: "sum_list (map g (insort_key f x xs)) = g x + sum_list (map (g::_ \<Rightarrow> 'a::comm_monoid_add) xs)"
  by (induction xs) (simp_all add: ac_simps)

lemma sum_sort_key: "sum_list (map g (sort_key f xs)) = sum_list (map (g::_ \<Rightarrow> 'a::comm_monoid_add) xs)"
  by (induction xs) (simp_all add: sum_insort_key)

lemma total_sorted_counts: "total (sorted_counts counts) = total counts"
  by (simp add: total_def sorted_counts_def sum_sort_key)

lemma set_sorted_counts: "set (sorted_counts counts) = set counts"
  by (simp add: sorted_counts_def)

lemma distinct_map_insort_key:
  "distinct (map g (insort_key f x xs)) = distinct (map g (x # xs))"
  by (induction xs) (auto simp: set_insort_key)

lemma distinct_map_sort_key: "distinct (map g (sort_key f xs)) = distinct (map g xs)"
  by (induction xs) (simp_all add: distinct_map_insort_key)

lemma distinct_sorted_counts: "distinct (map fst (sorted_counts counts)) = distinct (map fst counts)"
  by (simp add: sorted_counts_def distinct_map_sort_key)

lemma map_of_sort_key:
  assumes "distinct (map fst xs)"
  shows "map_of (sort_key f xs) = map_of xs"
proof -
  have "distinct (map fst (sort_key f xs))"
    using assms by (simp add: distinct_map_sort_key)
  moreover have "set (sort_key f xs) = set xs"
    by simp
  ultimately show ?thesis
    using assms by (simp add: map_of_inject_set)
qed

lemma count_of_sorted_counts:
  "distinct (map fst counts) \<Longrightarrow> count_of (sorted_counts counts) d = count_of counts d"
  by (simp add: count_of_def dict_get_def sorted_counts_def map_of_sort_key)

lemma count_of_count_up:
  "count_of (count_up d counts) d' = count_of counts d' + (if d' = d then 1 else 0)"
  by (simp add: count_of_def count_up_def dict_get_dict_set split: option.splits)

lemma count_of_count_all:
  "count_of (count_all ds counts) d = count_of counts d + count_list ds d"
  by (induction ds arbitrary: counts) (simp_all add: count_of_count_up)





lemma distinct_podium_loop:
  "distinct (map fst counts) \<Longrightarrow> distinct (map fst (podium_loop env year rounds counts))"
  by (induction rounds arbitrary: counts) (simp_all add: distinct_count_all split: option.splits)


lemma keys_podium_loop:
  "fst ` set (podium_loop env year rounds counts) =
   fst ` set counts \<union> (\<Union>s\<in>set (loaded_sessions env year rounds). set (podium_drivers env s))"
  by (induction rounds arbitrary: counts) (auto simp: keys_count_all split: option.splits)

lemma count_of_podium_loop:
  "count_of (podium_loop env year rounds counts) d =
   count_of counts d + (\<Sum>s\<leftarrow>loaded_sessions env year rounds. count_list (podium_drivers env s) d)"
  by (induction rounds arbitrary: counts) (simp_all add: count_of_count_all split: option.splits)

lemma positive_podium_loop:
  "positive counts \<Longrightarrow> positive (podium_loop env year rounds counts)"
  by (induction rounds arbitrary: counts) (simp_all add: positive_count_all split: option.splits)

lemma distinct_dnf_loop:
  "distinct (map fst counts) \<Longrightarrow> distinct (map fst (dnf_loop env year rounds counts))"
  by (induction rounds arbitrary: counts) (simp_all add: distinct_count_all split: option.splits)

lemma total_dnf_loop:
  "distinct (map fst counts) \<Longrightarrow>
   total (dnf_loop env year rounds counts) =
   total counts + (\<Sum>s\<leftarrow>loaded_sessions env year rounds. length (dnf_drivers s))"
  by (induction rounds arbitrary: counts)
     (simp_all add: distinct_count_all total_count_all split: option.splits)

lemma keys_dnf_loop:
  "fst ` set (dnf_loop env year rounds counts) =
   fst ` set counts \<union> (\<Union>s\<in>set (loaded_sessions env year rounds). set (dnf_drivers s))"
  by (induction rounds arbitrary: counts) (auto simp: keys_count_all split: option.splits)

lemma count_of_dnf_loop:
  "count_of (dnf_loop env year rounds counts) d =
   count_of counts d + (\<Sum>s\<leftarrow>loaded_sessions env year rounds. count_list (dnf_drivers s) d)"
  by (induction rounds arbitrary: counts) (simp_all add: count_of_count_all split: option.splits)

lemma positive_dnf_loop:
  "positive counts \<Longrightarrow> positive (dnf_loop env year rounds counts)"
  by (induction rounds arbitrary: counts) (simp_all add: positive_count_all split: option.splits)








section \<open>Podium totals\<close>


lemma season_2021: "get_race_schedule season 2021 =
  Some [\<lparr>RoundNumber = 1, EventDate = Some 100\<rparr>,
        \<lparr>RoundNumber = 2, EventDate = Some 200\<rparr>,
        \<lparr>RoundNumber = 3, EventDate = Some 300\<rparr>,
        \<lparr>RoundNumber = 4, EventDate = Some 900\<rparr>,
        \<lparr>RoundNumber = 5, EventDate = None\<rparr>]"
  by (simp add: get_race_schedule_def season_def)

lemma season_2022: "get_race_schedule season 2022 = Some [\<lparr>RoundNumber = 1, EventDate = Some 400\<rparr>]"
  by (simp add: get_race_schedule_def season_def)

lemma season_2022_rounds:
  "completed_rounds [\<lparr>RoundNumber = 1, EventDate = Some 400\<rparr>] (clock season 0) = [1]"
  by (simp add: completed_rounds_def is_completed_def season_def)

lemma season_2022_loaded: "loaded_sessions season 2022 [1] = [race_a]"
  by (simp add: season_def)


lemma podium_rows_a:
  "podium_rows season race_a =
     [row ''VER'' ''Red Bull'' (Some 1) 25 ''Finished'',
      row ''HAM'' ''Mercedes'' (Some 2) 18 ''Finished'',
      row ''PER'' ''Red Bull'' (Some 3) 15 ''Finished'']"
  by (simp add: podium_rows_def season_def insertion_sort_Position_def race_a_def row_def
      position_le_def)

lemma podium_a: "podium_drivers season race_a = [''VER'', ''HAM'', ''PER'']"
  unfolding podium_drivers_def podium_rows_a by (simp add: row_def)






section \<open>The small season, evaluated\<close>

lemma season_2021_rounds:
  "completed_rounds [\<lparr>RoundNumber = 1, EventDate = Some 100\<rparr>,
        \<lparr>RoundNumber = 2, EventDate = Some 200\<rparr>,
        \<lparr>RoundNumber = 3, EventDate = Some 300\<rparr>,
        \<lparr>RoundNumber = 4, EventDate = Some 900\<rparr>,
        \<lparr>RoundNumber = 5, EventDate = None\<rparr>] (clock season 0) = [1, 2, 3]"
  by (simp add: completed_rounds_def is_completed_def season_def)

lemma season_2021_loaded: "loaded_sessions season 2021 [1, 2, 3] = [race_a, race_b]"
  by (simp add: season_def)

lemma season_podium_b: "podium_drivers season race_b = [''VER'', ''HAM'']"
  by (simp add: podium_drivers_def podium_rows_def season_def insertion_sort_Position_def
      race_b_def row_def position_le_def)

lemma dnf_a: "dnf_drivers race_a = []"
  by (simp add: dnf_drivers_def race_a_def row_def)

lemma dnf_b: "dnf_drivers race_b = [''HAM'']"
  by (simp add: dnf_drivers_def race_b_def row_def)


lemma season_sessions:
  "get_session season 2021 1 = Some race_a" "get_session season 2021 2 = None"
  "get_session season 2021 3 = Some race_b" "get_session season 2022 1 = Some race_a"
  by (simp_all add: season_def)

lemma season_2021_podium_loop:
  "podium_loop season 2021 [1, 2, 3] [] = [(''VER'', 2), (''HAM'', 2), (''PER'', 1)]"
  by (simp add: season_sessions podium_a season_podium_b count_up_def dict_get_def)

lemma season_2021_dnf_loop: "dnf_loop season 2021 [1, 2, 3] [] = [(''HAM'', 1)]"
  by (simp add: season_sessions dnf_a dnf_b count_up_def dict_get_def)

lemma season_2021_podiums:
  "count_podiums season 2021 = Some [(''VER'', 2), (''HAM'', 2), (''PER'', 1)]"
  unfolding count_podiums_def season_2021 option.case season_2021_rounds season_2021_podium_loop
  by (simp add: sorted_counts_def)

lemma season_2021_dnfs: "count_dnfs season 2021 = Some [(''HAM'', 1)]"
  unfolding count_dnfs_def season_2021 option.case season_2021_rounds season_2021_dnf_loop
  by (simp add: sorted_counts_def)

section \<open>DNF totals\<close>

lemma length_dnf_drivers:
  "length (dnf_drivers s) = length (filter (\<lambda>r. Status r \<noteq> ''Finished'') (results s))"
  by (simp add: dnf_drivers_def)

text \<open>
  Claim C2. When the schedule of the year can be read, \<open>count_dnfs\<close> returns a tally, and
  the sum of its counts is the sum, over the completed rounds whose session loaded, of the
  number of result rows whose status is not exactly \<^verbatim>\<open>Finished\<close>.
\<close>

theorem count_dnfs_total:
  assumes "get_race_schedule env year = Some race_schedule"
  shows "\<exists>tally. count_dnfs env year = Some tally \<and>
           total tally =
             (\<Sum>s\<leftarrow>loaded_sessions env year (completed_rounds race_schedule (clock env 0)).
                length (filter (\<lambda>r. Status r \<noteq> ''Finished'') (results s)))"
proof -
  let ?rounds = "completed_rounds race_schedule (clock env 0)"
  let ?tally = "sorted_counts (dnf_loop env year ?rounds [])"
  have "count_dnfs env year = Some ?tally"
    using assms by (simp add: count_dnfs_def)
  moreover have "total ?tally = total (dnf_loop env year ?rounds [])"
    by (rule total_sorted_counts)
  moreover have "total (dnf_loop env year ?rounds []) =
      (\<Sum>s\<leftarrow>loaded_sessions env year ?rounds. length (dnf_drivers s))"
    using total_dnf_loop [of "[]" env year ?rounds] by (simp add: total_def)
  ultimately show ?thesis
    by (simp add: length_dnf_drivers)
qed


lemma dnf_rows:
  "length (filter (\<lambda>r. Status r \<noteq> ''Finished'') (results race_a)) = 0"
  "length (filter (\<lambda>r. Status r \<noteq> ''Finished'') (results race_b)) = 1"
  by (simp_all add: race_a_def race_b_def row_def)

theorem count_dnfs_total_witness:
  "get_race_schedule season 2021 =
     Some [\<lparr>RoundNumber = 1, EventDate = Some 100\<rparr>,
           \<lparr>RoundNumber = 2, EventDate = Some 200\<rparr>,
           \<lparr>RoundNumber = 3, EventDate = Some 300\<rparr>,
           \<lparr>RoundNumber = 4, EventDate = Some 900\<rparr>,
           \<lparr>RoundNumber = 5, EventDate = None\<rparr>] \<and>
   loaded_sessions season 2021 [1, 2, 3] = [race_a, race_b] \<and>
   (\<exists>tally. count_dnfs season 2021 = Some tally \<and> total tally = 1)"
proof -
  from count_dnfs_total [OF season_2021] obtain tally
    where ret: "count_dnfs season 2021 = Some tally"
      and "total tally = (\<Sum>s\<leftarrow>loaded_sessions season 2021 [1, 2, 3].
             length (filter (\<lambda>r. Status r \<noteq> ''Finished'') (results s)))"
    unfolding season_2021_rounds by blast
  then have "total tally = 1"
    unfolding season_2021_loaded by (simp add: dnf_rows)
  with ret show ?thesis
    using season_2021 season_2021_loaded by blast
qed

section \<open>No driver is listed with a count of zero\<close>

text \<open>
  Claim C9. In the tallies returned by \<open>count_podiums\<close> and \<open>count_dnfs\<close> every listed
  driver has a count of at least 1. Each driver is listed once, and the listed drivers are
  exactly those with a podium row (a non-finished row) in some loaded round: a driver
  without one is absent, not listed with 0.
\<close>

theorem tally_counts_positive:
  assumes "get_race_schedule env year = Some race_schedule"
  shows "\<exists>podiums dnfs.
           count_podiums env year = Some podiums \<and> count_dnfs env year = Some dnfs \<and>
           (\<forall>(driver, n)\<in>set podiums. 1 \<le> n) \<and> (\<forall>(driver, n)\<in>set dnfs. 1 \<le> n) \<and>
           distinct (map fst podiums) \<and> distinct (map fst dnfs) \<and>
           fst ` set podiums =
             (\<Union>s\<in>set (loaded_sessions env year (completed_rounds race_schedule (clock env 0))).
                set (podium_drivers env s)) \<and>
           fst ` set dnfs =
             (\<Union>s\<in>set (loaded_sessions env year (completed_rounds race_schedule (clock env 0))).
                set (dnf_drivers s))"
proof -
  let ?rounds = "completed_rounds race_schedule (clock env 0)"
  let ?p = "podium_loop env year ?rounds []"
  let ?q = "dnf_loop env year ?rounds []"
  have retp: "count_podiums env year = Some (sorted_counts ?p)"
    using assms by (simp add: count_podiums_def)
  have retq: "count_dnfs env year = Some (sorted_counts ?q)"
    using assms by (simp add: count_dnfs_def)
  have empty: "positive []"
    by (simp add: positive_def)
  have "positive ?p"
    using empty by (rule positive_podium_loop)
  then have posp: "\<forall>(driver, n)\<in>set (sorted_counts ?p). 1 \<le> n"
    unfolding positive_def set_sorted_counts by (simp add: case_prod_beta)
  have "positive ?q"
    using empty by (rule positive_dnf_loop)
  then have posq: "\<forall>(driver, n)\<in>set (sorted_counts ?q). 1 \<le> n"
    unfolding positive_def set_sorted_counts by (simp add: case_prod_beta)
  have distp: "distinct (map fst (sorted_counts ?p))"
    by (simp add: distinct_sorted_counts distinct_podium_loop)
  have distq: "distinct (map fst (sorted_counts ?q))"
    by (simp add: distinct_sorted_counts distinct_dnf_loop)
  have keysp: "fst ` set (sorted_counts ?p) =
        (\<Union>s\<in>set (loaded_sessions env year ?rounds). set (podium_drivers env s))"
    unfolding set_sorted_counts keys_podium_loop by simp
  have keysq: "fst ` set (sorted_counts ?q) =
        (\<Union>s\<in>set (loaded_sessions env year ?rounds). set (dnf_drivers s))"
    unfolding set_sorted_counts keys_dnf_loop by simp
  show ?thesis
  proof (intro exI conjI)
    show "count_podiums env year = Some (sorted_counts ?p)" by (rule retp)
    show "count_dnfs env year = Some (sorted_counts ?q)" by (rule retq)
    show "\<forall>(driver, n)\<in>set (sorted_counts ?p). 1 \<le> n" by (rule posp)
    show "\<forall>(driver, n)\<in>set (sorted_counts ?q). 1 \<le> n" by (rule posq)
    show "distinct (map fst (sorted_counts ?p))" by (rule distp)
    show "distinct (map fst (sorted_counts ?q))" by (rule distq)
    show "fst ` set (sorted_counts ?p) =
        (\<Union>s\<in>set (loaded_sessions env year ?rounds). set (podium_drivers env s))" by (rule keysp)
    show "fst ` set (sorted_counts ?q) =
        (\<Union>s\<in>set (loaded_sessions env year ?rounds). set (dnf_drivers s))" by (rule keysq)
  qed
qed

theorem tally_counts_positive_witness:
  "get_race_schedule season 2021 =
     Some [\<lparr>RoundNumber = 1, EventDate = Some 100\<rparr>,
           \<lparr>RoundNumber = 2, EventDate = Some 200\<rparr>,
           \<lparr>RoundNumber = 3, EventDate = Some 300\<rparr>,
           \<lparr>RoundNumber = 4, EventDate = Some 900\<rparr>,
           \<lparr>RoundNumber = 5, EventDate = None\<rparr>] \<and>
   count_podiums season 2021 = Some [(''VER'', 2), (''HAM'', 2), (''PER'', 1)] \<and>
   count_dnfs season 2021 = Some [(''HAM'', 1)] \<and>
   positive [(''VER'', 2), (''HAM'', 2), (''PER'', 1)] \<and> positive [(''HAM'', 1)] \<and>
   ''ALO'' \<notin> fst ` set [(''VER'', 2::nat), (''HAM'', 2), (''PER'', 1)]"
proof -
  from tally_counts_positive [OF season_2021] obtain podiums dnfs
    where p: "count_podiums season 2021 = Some podiums"
      and q: "count_dnfs season 2021 = Some dnfs"
      and pp: "\<forall>(driver, n)\<in>set podiums. 1 \<le> n"
      and pq: "\<forall>(driver, n)\<in>set dnfs. 1 \<le> n"
    by (elim exE conjE)
  from p have "podiums = [(''VER'', 2), (''HAM'', 2), (''PER'', 1)]"
    by (simp add: season_2021_podiums)
  with pp have 1: "positive [(''VER'', 2), (''HAM'', 2), (''PER'', 1)]"
    by (simp add: positive_def)
  from q have "dnfs = [(''HAM'', 1)]"
    by (simp add: season_2021_dnfs)
  with pq have 2: "positive [(''HAM'', 1)]"
    by (simp add: positive_def)
  have 3: "''ALO'' \<notin> fst ` set [(''VER'', 2::nat), (''HAM'', 2), (''PER'', 1)]"
    by simp
  from season_2021 season_2021_podiums season_2021_dnfs 1 2 3 show ?thesis
    by (intro conjI)
qed

section \<open>The loops over rounds\<close>

lemma keep_events_simps:
  "get_session (keep_events P env) = get_session env"
  "clock (keep_events P env) = clock env"
  "get_race_schedule (keep_events P env) year = map_option (filter P) (get_race_schedule env year)"
  "sort_values_Position (keep_events P env) = sort_values_Position env"
  by (simp_all add: keep_events_def get_race_schedule_def)

lemma podium_loop_cong:
  "get_session env' = get_session env \<Longrightarrow>
   sort_values_Position env' = sort_values_Position env \<Longrightarrow>
   podium_loop env' year rounds counts = podium_loop env year rounds counts"
  by (induction rounds arbitrary: counts)
     (simp_all add: podium_drivers_def podium_rows_def split: option.splits)

lemma dnf_loop_cong:
  "get_session env' = get_session env \<Longrightarrow>
   dnf_loop env' year rounds counts = dnf_loop env year rounds counts"
  by (induction rounds arbitrary: counts) (simp_all split: option.splits)

lemma compare_loop_cong:
  "get_session env' = get_session env \<Longrightarrow>
   compare_loop env' year d1 d2 rounds c = compare_loop env year d1 d2 rounds c"
  by (induction rounds arbitrary: c) (simp_all split: option.splits)

lemma export_loop_cong:
  "get_session env' = get_session env \<Longrightarrow>
   export_loop env' year rounds st = export_loop env year rounds st"
  by (induction rounds arbitrary: st) (simp_all split: option.splits)

lemma podium_loop_append:
  "podium_loop env year (before @ after) counts =
   podium_loop env year after (podium_loop env year before counts)"
  by (induction before arbitrary: counts) (simp_all split: option.splits)

lemma dnf_loop_append:
  "dnf_loop env year (before @ after) counts =
   dnf_loop env year after (dnf_loop env year before counts)"
  by (induction before arbitrary: counts) (simp_all split: option.splits)

lemma compare_loop_append:
  "compare_loop env year d1 d2 (before @ after) c =
   compare_loop env year d1 d2 after (compare_loop env year d1 d2 before c)"
  by (induction before arbitrary: c) (simp_all split: option.splits)

lemma export_loop_append:
  "export_loop env year (before @ after) st =
   export_loop env year after (export_loop env year before st)"
  by (induction before arbitrary: st) (simp_all split: option.splits)

lemma podium_loop_failed:
  "get_session env year r = None \<Longrightarrow>
   podium_loop env year (filter (\<lambda>x. x \<noteq> r) rounds) counts = podium_loop env year rounds counts"
  by (induction rounds arbitrary: counts) (simp_all split: option.splits)

lemma dnf_loop_failed:
  "get_session env year r = None \<Longrightarrow>
   dnf_loop env year (filter (\<lambda>x. x \<noteq> r) rounds) counts = dnf_loop env year rounds counts"
  by (induction rounds arbitrary: counts) (simp_all split: option.splits)

lemma compare_loop_failed:
  "get_session env year r = None \<Longrightarrow>
   compare_loop env year d1 d2 (filter (\<lambda>x. x \<noteq> r) rounds) c =
   compare_loop env year d1 d2 rounds c"
  by (induction rounds arbitrary: c) (simp_all split: option.splits)

lemma export_loop_failed:
  "get_session env year r = None \<Longrightarrow>
   export_loop env year (filter (\<lambda>x. x \<noteq> r) rounds) st = export_loop env year rounds st"
  by (induction rounds arbitrary: st) (simp_all split: option.splits)

lemma completed_rounds_without:
  "completed_rounds (filter (\<lambda>e. RoundNumber e \<noteq> r) race_schedule) now =
   filter (\<lambda>x. x \<noteq> r) (completed_rounds race_schedule now)"
  by (induction race_schedule) (simp_all add: completed_rounds_def)

lemma completed_rounds_kept:
  "completed_rounds (filter (is_completed now) race_schedule) now =
   completed_rounds race_schedule now"
  by (simp add: completed_rounds_def)

lemma season_counters_failed:
  "get_session env year r = None \<Longrightarrow>
   season_counters env d1 d2 year (filter (\<lambda>e. RoundNumber e \<noteq> r) race_schedule) now =
   season_counters env d1 d2 year race_schedule now"
  by (simp add: season_counters_def completed_rounds_without compare_loop_failed)

text \<open>
  Claim C3. If the session of round \<open>r\<close> fails to load, the results of \<open>count_podiums\<close>,
  \<open>count_dnfs\<close> and \<open>export_full_season_details\<close> (rows, driver points and team points)
  are those obtained when round \<open>r\<close> is removed from the schedule, and so are the points
  and wins counted for a year by \<open>compare_drivers\<close>: a failed round adds nothing.
\<close>

theorem failed_round_is_absent_round:
  assumes "get_session env year r = None"
  shows "count_podiums (keep_events (\<lambda>e. RoundNumber e \<noteq> r) env) year = count_podiums env year \<and>
         count_dnfs (keep_events (\<lambda>e. RoundNumber e \<noteq> r) env) year = count_dnfs env year \<and>
         export_full_season_details (keep_events (\<lambda>e. RoundNumber e \<noteq> r) env) year =
           export_full_season_details env year \<and>
         season_counters env d1 d2 year (filter (\<lambda>e. RoundNumber e \<noteq> r) race_schedule) now =
           season_counters env d1 d2 year race_schedule now"
proof -
  let ?env = "keep_events (\<lambda>e. RoundNumber e \<noteq> r) env"
  have same: "get_session ?env = get_session env"
    by (rule keep_events_simps)
  have same_sort: "sort_values_Position ?env = sort_values_Position env"
    by (rule keep_events_simps)
  have podiums: "count_podiums ?env year = count_podiums env year"
  proof (cases "get_race_schedule env year")
    case None
    then show ?thesis by (simp add: count_podiums_def keep_events_simps)
  next
    case (Some sch)
    then show ?thesis
      using assms
      by (simp add: count_podiums_def keep_events_simps podium_loop_cong [OF same same_sort]
          completed_rounds_without podium_loop_failed)
  qed
  have dnfs: "count_dnfs ?env year = count_dnfs env year"
  proof (cases "get_race_schedule env year")
    case None
    then show ?thesis by (simp add: count_dnfs_def keep_events_simps)
  next
    case (Some sch)
    then show ?thesis
      using assms
      by (simp add: count_dnfs_def keep_events_simps dnf_loop_cong [OF same]
          completed_rounds_without dnf_loop_failed)
  qed
  have export: "export_full_season_details ?env year = export_full_season_details env year"
  proof (cases "get_race_schedule env year")
    case None
    then show ?thesis by (simp add: export_full_season_details_def keep_events_simps)
  next
    case (Some sch)
    then show ?thesis
      using assms
      by (simp add: export_full_season_details_def keep_events_simps export_loop_cong [OF same]
          completed_rounds_without export_loop_failed)
  qed
  from podiums dnfs export season_counters_failed [OF assms] show ?thesis
    by (intro conjI)
qed

lemma length_compare_years:
  "length (compare_years env d1 d2 n years) =
   length (filter (\<lambda>y. get_race_schedule env y \<noteq> None) years)"
  by (induction years arbitrary: n) (simp_all split: option.splits)

text \<open>
  Claim C6. \<open>count_podiums\<close>, \<open>count_dnfs\<close> and \<open>export_full_season_details\<close> return
  nothing exactly when the schedule of the year cannot be read, whatever sessions fail to
  load; \<open>compare_drivers\<close> returns a record for every listed year whose schedule can be
  read; and after a round whose session fails to load each loop goes on with the rounds
  that follow, from the state it had reached.
\<close>

theorem round_failure_never_aborts:
  "(count_podiums env year = None) = (get_race_schedule env year = None) \<and>
   (count_dnfs env year = None) = (get_race_schedule env year = None) \<and>
   (export_full_season_details env year = None) = (get_race_schedule env year = None) \<and>
   length (compare_drivers env d1 d2 years) =
     length (filter (\<lambda>y. get_race_schedule env y \<noteq> None) years) \<and>
   (get_session env year r = None \<longrightarrow>
      podium_loop env year (before @ r # after) counts =
        podium_loop env year after (podium_loop env year before counts) \<and>
      dnf_loop env year (before @ r # after) counts =
        dnf_loop env year after (dnf_loop env year before counts) \<and>
      compare_loop env year d1 d2 (before @ r # after) c =
        compare_loop env year d1 d2 after (compare_loop env year d1 d2 before c) \<and>
      export_loop env year (before @ r # after) st =
        export_loop env year after (export_loop env year before st))"
proof -
  have 1: "(count_podiums env year = None) = (get_race_schedule env year = None)"
    by (simp add: count_podiums_def split: option.splits)
  have 2: "(count_dnfs env year = None) = (get_race_schedule env year = None)"
    by (simp add: count_dnfs_def split: option.splits)
  have 3: "(export_full_season_details env year = None) = (get_race_schedule env year = None)"
    by (simp add: export_full_season_details_def Let_def split: option.splits)
  have 4: "length (compare_drivers env d1 d2 years) =
     length (filter (\<lambda>y. get_race_schedule env y \<noteq> None) years)"
    by (simp add: compare_drivers_def length_compare_years)
  have 5: "get_session env year r = None \<longrightarrow>
      podium_loop env year (before @ r # after) counts =
        podium_loop env year after (podium_loop env year before counts) \<and>
      dnf_loop env year (before @ r # after) counts =
        dnf_loop env year after (dnf_loop env year before counts) \<and>
      compare_loop env year d1 d2 (before @ r # after) c =
        compare_loop env year d1 d2 after (compare_loop env year d1 d2 before c) \<and>
      export_loop env year (before @ r # after) st =
        export_loop env year after (export_loop env year before st)"
    by (simp add: podium_loop_append dnf_loop_append compare_loop_append export_loop_append)
  from 1 2 3 4 5 show ?thesis
    by (intro conjI)
qed

theorem failed_round_is_absent_round_witness:
  "get_session season 2021 2 = None \<and>
   count_podiums (keep_events (\<lambda>e. RoundNumber e \<noteq> 2) season) 2021 =
     Some [(''VER'', 2), (''HAM'', 2), (''PER'', 1)] \<and>
   count_dnfs (keep_events (\<lambda>e. RoundNumber e \<noteq> 2) season) 2021 = Some [(''HAM'', 1)] \<and>
   export_full_season_details (keep_events (\<lambda>e. RoundNumber e \<noteq> 2) season) 2021 =
     export_full_season_details season 2021"
proof -
  have failed: "get_session season 2021 2 = None"
    by (rule season_sessions)
  note same = failed_round_is_absent_round [OF failed]
  from same have "count_podiums (keep_events (\<lambda>e. RoundNumber e \<noteq> 2) season) 2021 =
      count_podiums season 2021"
    by (rule conjunct1)
  then have 1: "count_podiums (keep_events (\<lambda>e. RoundNumber e \<noteq> 2) season) 2021 =
      Some [(''VER'', 2), (''HAM'', 2), (''PER'', 1)]"
    by (simp only: season_2021_podiums)
  from same [THEN conjunct2]
  have "count_dnfs (keep_events (\<lambda>e. RoundNumber e \<noteq> 2) season) 2021 =
      count_dnfs season 2021"
    by (rule conjunct1)
  then have 2: "count_dnfs (keep_events (\<lambda>e. RoundNumber e \<noteq> 2) season) 2021 =
      Some [(''HAM'', 1)]"
    by (simp only: season_2021_dnfs)
  from same [THEN conjunct2, THEN conjunct2]
  have 3: "export_full_season_details (keep_events (\<lambda>e. RoundNumber e \<noteq> 2) season) 2021 =
     export_full_season_details season 2021"
    by (rule conjunct1)
  from failed 1 2 3 show ?thesis
    by (intro conjI)
qed

lemma season_2020: "get_race_schedule season 2020 = None"
  by (simp add: get_race_schedule_def season_def)

theorem round_failure_never_aborts_witness:
  "get_session season 2021 2 = None \<and>
   podium_loop season 2021 ([1] @ 2 # [3]) [] =
     podium_loop season 2021 [3] (podium_loop season 2021 [1] []) \<and>
   count_podiums season 2021 \<noteq> None \<and>
   count_podiums season 2020 = None \<and>
   length (compare_drivers season ''VER'' ''HAM'' [2021, 2020, 2022]) = 2"
proof -
  have failed: "get_session season 2021 2 = None"
    by (rule season_sessions)
  note inst = round_failure_never_aborts [where env = season and r = 2 and before = "[1]"
      and after = "[3]" and counts = "[]" and ?d1.0 = "''VER''" and ?d2.0 = "''HAM''"]
  from inst [where year = 2021, THEN conjunct2, THEN conjunct2, THEN conjunct2, THEN conjunct2]
    failed
  have 1: "podium_loop season 2021 ([1] @ 2 # [3]) [] =
     podium_loop season 2021 [3] (podium_loop season 2021 [1] [])"
    by blast
  from inst [where year = 2021] have "(count_podiums season 2021 = None) =
      (get_race_schedule season 2021 = None)"
    by (rule conjunct1)
  then have 2: "count_podiums season 2021 \<noteq> None"
    by (simp add: season_2021)
  from inst [where year = 2020] have "(count_podiums season 2020 = None) =
      (get_race_schedule season 2020 = None)"
    by (rule conjunct1)
  then have 3: "count_podiums season 2020 = None"
    by (simp add: season_2020)
  from inst [where year = 2021 and years = "[2021, 2020, 2022]",
      THEN conjunct2, THEN conjunct2, THEN conjunct2]
  have "length (compare_drivers season ''VER'' ''HAM'' [2021, 2020, 2022]) =
     length (filter (\<lambda>y. get_race_schedule season y \<noteq> None) [2021, 2020, 2022])"
    by (rule conjunct1)
  then have 4: "length (compare_drivers season ''VER'' ''HAM'' [2021, 2020, 2022]) = 2"
    by (simp add: season_2021 season_2020 season_2022)
  from failed 1 2 3 4 show ?thesis
    by (intro conjI)
qed

section \<open>Comparing two drivers\<close>

lemma compare_round_fields:
  "driver1_points (compare_round d1 d2 s c) = driver1_points c + round_points d1 s"
  "driver2_points (compare_round d1 d2 s c) = driver2_points c + round_points d2 s"
  "driver1_wins (compare_round d1 d2 s c) = driver1_wins c + round_win d1 s"
  "driver2_wins (compare_round d1 d2 s c) = driver2_wins c + round_win d2 s"
  by (simp_all add: compare_round_def round_points_def round_win_def Let_def split: list.splits)

lemma compare_loop_fields:
  "driver1_points (compare_loop env year d1 d2 rounds c) =
     driver1_points c + (\<Sum>s\<leftarrow>loaded_sessions env year rounds. round_points d1 s)"
  "driver2_points (compare_loop env year d1 d2 rounds c) =
     driver2_points c + (\<Sum>s\<leftarrow>loaded_sessions env year rounds. round_points d2 s)"
  "driver1_wins (compare_loop env year d1 d2 rounds c) =
     driver1_wins c + (\<Sum>s\<leftarrow>loaded_sessions env year rounds. round_win d1 s)"
  "driver2_wins (compare_loop env year d1 d2 rounds c) =
     driver2_wins c + (\<Sum>s\<leftarrow>loaded_sessions env year rounds. round_win d2 s)"
  by (induction rounds arbitrary: c; simp add: compare_round_fields split: option.splits)+

lemma season_counters_fields:
  "driver1_points (season_counters env d1 d2 year sch now) =
     (\<Sum>s\<leftarrow>loaded_sessions env year (completed_rounds sch now). round_points d1 s)"
  "driver2_points (season_counters env d1 d2 year sch now) =
     (\<Sum>s\<leftarrow>loaded_sessions env year (completed_rounds sch now). round_points d2 s)"
  "driver1_wins (season_counters env d1 d2 year sch now) =
     (\<Sum>s\<leftarrow>loaded_sessions env year (completed_rounds sch now). round_win d1 s)"
  "driver2_wins (season_counters env d1 d2 year sch now) =
     (\<Sum>s\<leftarrow>loaded_sessions env year (completed_rounds sch now). round_win d2 s)"
  by (simp_all add: season_counters_def compare_loop_fields zero_counters_def)

lemma absent_driver: "(\<forall>r\<in>set (results s). Abbreviation r \<noteq> driver) \<Longrightarrow> driver_result driver s = []"
  by (simp add: driver_result_def filter_empty_conv)

lemma round_win_iff:
  "round_win driver s =
     (if \<exists>r rest. driver_result driver s = r # rest \<and> Position r = Some 1 then 1 else 0)"
  by (simp add: round_win_def split: list.splits)

lemma Points_neq_Wins: "d @ '' Points'' \<noteq> d' @ '' Wins''"
proof
  assume "d @ '' Points'' = d' @ '' Wins''"
  then have "rev (d @ '' Points'') = rev (d' @ '' Wins'')"
    by (rule arg_cong)
  then show False
    by simp
qed

lemma Year_neq_Points: "''Year'' \<noteq> d @ '' Points''"
proof
  assume "''Year'' = d @ '' Points''"
  then have "rev ''Year'' = rev (d @ '' Points'')"
    by (rule arg_cong)
  then show False
    by simp
qed

lemma Year_neq_Wins: "''Year'' \<noteq> d @ '' Wins''"
proof
  assume "''Year'' = d @ '' Wins''"
  then have "rev ''Year'' = rev (d @ '' Wins'')"
    by (rule arg_cong)
  then show False
    by simp
qed

lemmas key_neq = Points_neq_Wins Points_neq_Wins [symmetric] Year_neq_Points
  Year_neq_Points [symmetric] Year_neq_Wins Year_neq_Wins [symmetric]

lemma comparison_record_lookup:
  "dict_get (comparison_record d1 d2 year c) ''Year'' = Some (Year_cell year)"
  "dict_get (comparison_record d1 d2 year c) (d2 @ '' Points'') = Some (Points_cell (driver2_points c))"
  "dict_get (comparison_record d1 d2 year c) (d2 @ '' Wins'') = Some (Wins_cell (driver2_wins c))"
  "d1 \<noteq> d2 \<Longrightarrow>
   dict_get (comparison_record d1 d2 year c) (d1 @ '' Points'') = Some (Points_cell (driver1_points c))"
  "d1 \<noteq> d2 \<Longrightarrow>
   dict_get (comparison_record d1 d2 year c) (d1 @ '' Wins'') = Some (Wins_cell (driver1_wins c))"
  by (simp_all add: comparison_record_def dict_get_dict_set key_neq del: dict_set.simps)

lemma compare_round_absent:
  "(\<forall>r\<in>set (results s). Abbreviation r \<noteq> d1) \<Longrightarrow>
   driver1_points (compare_round d1 d2 s c) = driver1_points c \<and>
   driver1_wins (compare_round d1 d2 s c) = driver1_wins c"
  "(\<forall>r\<in>set (results s). Abbreviation r \<noteq> d2) \<Longrightarrow>
   driver2_points (compare_round d1 d2 s c) = driver2_points c \<and>
   driver2_wins (compare_round d1 d2 s c) = driver2_wins c"
  by (simp_all add: compare_round_fields round_points_def round_win_def absent_driver)

text \<open>
  Claim C5. In \<open>compare_drivers\<close>, a loaded round whose results hold no row with exactly
  the abbreviation of a named driver leaves that driver's points and wins as they were;
  the function is total, so nothing is raised. The win counter of a driver goes up by one
  in a round exactly when the row selected for the driver (the first with the
  abbreviation) exists and has position 1, and the points go up by the points of that row.
  Over a year the counters are the sums of these contributions over the completed rounds
  that loaded.
\<close>

theorem lookup_miss_counts_zero:
  "((\<forall>r\<in>set (results s). Abbreviation r \<noteq> driver1) \<longrightarrow>
      driver1_points (compare_round driver1 driver2 s c) = driver1_points c \<and>
      driver1_wins (compare_round driver1 driver2 s c) = driver1_wins c) \<and>
   ((\<forall>r\<in>set (results s). Abbreviation r \<noteq> driver2) \<longrightarrow>
      driver2_points (compare_round driver1 driver2 s c) = driver2_points c \<and>
      driver2_wins (compare_round driver1 driver2 s c) = driver2_wins c) \<and>
   driver1_wins (compare_round driver1 driver2 s c) =
     driver1_wins c +
     (if \<exists>r rest. driver_result driver1 s = r # rest \<and> Position r = Some 1 then 1 else 0) \<and>
   driver2_wins (compare_round driver1 driver2 s c) =
     driver2_wins c +
     (if \<exists>r rest. driver_result driver2 s = r # rest \<and> Position r = Some 1 then 1 else 0) \<and>
   driver1_points (compare_round driver1 driver2 s c) =
     driver1_points c + (case driver_result driver1 s of [] \<Rightarrow> 0 | r # _ \<Rightarrow> Points r) \<and>
   driver2_points (compare_round driver1 driver2 s c) =
     driver2_points c + (case driver_result driver2 s of [] \<Rightarrow> 0 | r # _ \<Rightarrow> Points r) \<and>
   driver1_points (season_counters env driver1 driver2 year race_schedule now) =
     (\<Sum>s\<leftarrow>loaded_sessions env year (completed_rounds race_schedule now). round_points driver1 s) \<and>
   driver2_points (season_counters env driver1 driver2 year race_schedule now) =
     (\<Sum>s\<leftarrow>loaded_sessions env year (completed_rounds race_schedule now). round_points driver2 s) \<and>
   driver1_wins (season_counters env driver1 driver2 year race_schedule now) =
     (\<Sum>s\<leftarrow>loaded_sessions env year (completed_rounds race_schedule now). round_win driver1 s) \<and>
   driver2_wins (season_counters env driver1 driver2 year race_schedule now) =
     (\<Sum>s\<leftarrow>loaded_sessions env year (completed_rounds race_schedule now). round_win driver2 s)"
proof (intro conjI impI)
  show "driver1_wins (compare_round driver1 driver2 s c) =
     driver1_wins c +
     (if \<exists>r rest. driver_result driver1 s = r # rest \<and> Position r = Some 1 then 1 else 0)"
    unfolding compare_round_fields round_win_iff ..
  show "driver2_wins (compare_round driver1 driver2 s c) =
     driver2_wins c +
     (if \<exists>r rest. driver_result driver2 s = r # rest \<and> Position r = Some 1 then 1 else 0)"
    unfolding compare_round_fields round_win_iff ..
  show "driver1_points (compare_round driver1 driver2 s c) =
     driver1_points c + (case driver_result driver1 s of [] \<Rightarrow> 0 | r # _ \<Rightarrow> Points r)"
    unfolding compare_round_fields round_points_def ..
  show "driver2_points (compare_round driver1 driver2 s c) =
     driver2_points c + (case driver_result driver2 s of [] \<Rightarrow> 0 | r # _ \<Rightarrow> Points r)"
    unfolding compare_round_fields round_points_def ..
qed (simp_all only: compare_round_absent season_counters_fields)

lemma compare_years_enumerate:
  "compare_years env d1 d2 n years =
   map (\<lambda>(k, year). season_record env d1 d2 year (clock env k))
     (enumerate n (filter (\<lambda>y. get_race_schedule env y \<noteq> None) years))"
  by (induction years arbitrary: n) (simp_all add: season_record_def split: option.splits)

lemma season_record_lookup:
  assumes "get_race_schedule env year = Some race_schedule"
  shows "dict_get (season_record env d1 d2 year now) ''Year'' = Some (Year_cell year)"
    "dict_get (season_record env d1 d2 year now) (d1 @ '' Points'') =
       Some (Points_cell (\<Sum>s\<leftarrow>loaded_sessions env year (completed_rounds race_schedule now).
                             round_points d1 s))"
    "dict_get (season_record env d1 d2 year now) (d2 @ '' Points'') =
       Some (Points_cell (\<Sum>s\<leftarrow>loaded_sessions env year (completed_rounds race_schedule now).
                             round_points d2 s))"
    "dict_get (season_record env d1 d2 year now) (d1 @ '' Wins'') =
       Some (Wins_cell (\<Sum>s\<leftarrow>loaded_sessions env year (completed_rounds race_schedule now).
                           round_win d1 s))"
    "dict_get (season_record env d1 d2 year now) (d2 @ '' Wins'') =
       Some (Wins_cell (\<Sum>s\<leftarrow>loaded_sessions env year (completed_rounds race_schedule now).
                           round_win d2 s))"
proof -
  let ?c = "season_counters env d1 d2 year race_schedule now"
  have rec: "season_record env d1 d2 year now = comparison_record d1 d2 year ?c"
    using assms by (simp add: season_record_def)
  show "dict_get (season_record env d1 d2 year now) ''Year'' = Some (Year_cell year)"
    unfolding rec by (rule comparison_record_lookup)
  show "dict_get (season_record env d1 d2 year now) (d2 @ '' Points'') =
       Some (Points_cell (\<Sum>s\<leftarrow>loaded_sessions env year (completed_rounds race_schedule now).
                             round_points d2 s))"
    unfolding rec by (simp add: comparison_record_lookup season_counters_fields)
  show "dict_get (season_record env d1 d2 year now) (d2 @ '' Wins'') =
       Some (Wins_cell (\<Sum>s\<leftarrow>loaded_sessions env year (completed_rounds race_schedule now).
                           round_win d2 s))"
    unfolding rec by (simp add: comparison_record_lookup season_counters_fields)
  show "dict_get (season_record env d1 d2 year now) (d1 @ '' Points'') =
       Some (Points_cell (\<Sum>s\<leftarrow>loaded_sessions env year (completed_rounds race_schedule now).
                             round_points d1 s))"
    unfolding rec by (cases "d1 = d2") (simp_all add: comparison_record_lookup season_counters_fields)
  show "dict_get (season_record env d1 d2 year now) (d1 @ '' Wins'') =
       Some (Wins_cell (\<Sum>s\<leftarrow>loaded_sessions env year (completed_rounds race_schedule now).
                           round_win d1 s))"
    unfolding rec by (cases "d1 = d2") (simp_all add: comparison_record_lookup season_counters_fields)
qed

text \<open>
  Claim C7, as amended. The output of \<open>compare_drivers\<close> holds one record for every listed
  year whose schedule can be read, in the order of the list, and none for a year whose
  schedule cannot be read. The record of a year gives, under the keys of the two drivers,
  the points and the wins summed from zero over the completed rounds of that year alone.
\<close>

theorem one_record_per_scheduled_year:
  "compare_drivers env driver1 driver2 years =
     map (\<lambda>(k, year). season_record env driver1 driver2 year (clock env k))
       (enumerate 0 (filter (\<lambda>y. get_race_schedule env y \<noteq> None) years)) \<and>
   (get_race_schedule env year = Some race_schedule \<longrightarrow>
      dict_get (season_record env driver1 driver2 year now) ''Year'' = Some (Year_cell year) \<and>
      dict_get (season_record env driver1 driver2 year now) (driver1 @ '' Points'') =
        Some (Points_cell (\<Sum>s\<leftarrow>loaded_sessions env year (completed_rounds race_schedule now).
                              round_points driver1 s)) \<and>
      dict_get (season_record env driver1 driver2 year now) (driver2 @ '' Points'') =
        Some (Points_cell (\<Sum>s\<leftarrow>loaded_sessions env year (completed_rounds race_schedule now).
                              round_points driver2 s)) \<and>
      dict_get (season_record env driver1 driver2 year now) (driver1 @ '' Wins'') =
        Some (Wins_cell (\<Sum>s\<leftarrow>loaded_sessions env year (completed_rounds race_schedule now).
                            round_win driver1 s)) \<and>
      dict_get (season_record env driver1 driver2 year now) (driver2 @ '' Wins'') =
        Some (Wins_cell (\<Sum>s\<leftarrow>loaded_sessions env year (completed_rounds race_schedule now).
                            round_win driver2 s)))"
proof (intro conjI impI)
  show "compare_drivers env driver1 driver2 years =
     map (\<lambda>(k, year). season_record env driver1 driver2 year (clock env k))
       (enumerate 0 (filter (\<lambda>y. get_race_schedule env y \<noteq> None) years))"
    unfolding compare_drivers_def by (rule compare_years_enumerate)
qed (rule season_record_lookup, assumption)+

lemma compare_years_entry:
  "entry \<in> set (compare_years env d1 d2 n years) \<Longrightarrow>
   \<exists>year sch now. year \<in> set years \<and> get_race_schedule env year = Some sch \<and>
     entry = comparison_record d1 d2 year (season_counters env d1 d2 year sch now)"
proof (induction years arbitrary: n)
  case Nil
  then show ?case by simp
next
  case (Cons y years)
  show ?case
  proof (cases "get_race_schedule env y")
    case None
    with Cons.prems have "entry \<in> set (compare_years env d1 d2 n years)"
      by simp
    then obtain year sch now where "year \<in> set years" "get_race_schedule env year = Some sch"
        "entry = comparison_record d1 d2 year (season_counters env d1 d2 year sch now)"
      using Cons.IH by blast
    then show ?thesis
      by auto
  next
    case (Some sch)
    with Cons.prems have "entry = comparison_record d1 d2 y (season_counters env d1 d2 y sch (clock env n))
        \<or> entry \<in> set (compare_years env d1 d2 (Suc n) years)"
      by simp
    then show ?thesis
    proof
      assume "entry = comparison_record d1 d2 y (season_counters env d1 d2 y sch (clock env n))"
      with Some show ?thesis
        by auto
    next
      assume "entry \<in> set (compare_years env d1 d2 (Suc n) years)"
      then obtain year sch' now where "year \<in> set years"
          "get_race_schedule env year = Some sch'"
          "entry = comparison_record d1 d2 year (season_counters env d1 d2 year sch' now)"
        using Cons.IH by blast
      then show ?thesis
        by auto
    qed
  qed
qed

text \<open>
  Claim C8. When the same abbreviation \<open>D\<close> is passed for both drivers, the two points
  counters that \<open>compare_drivers\<close> keeps for a year are equal and so are the two win
  counters: one round of the loop keeps them equal, and they are equal at the end of every
  year. Every record of \<open>compare_drivers D D years\<close> is the record of these counters for a
  listed year; the keys of the two drivers coincide, and the value under \<^verbatim>\<open>D Points\<close> is
  the points counter of either driver, the value under \<^verbatim>\<open>D Wins\<close> the win counter of
  either driver.
\<close>

theorem same_driver_equal_columns:
  "driver1_points (season_counters env driver driver year race_schedule now) =
     driver2_points (season_counters env driver driver year race_schedule now) \<and>
   driver1_wins (season_counters env driver driver year race_schedule now) =
     driver2_wins (season_counters env driver driver year race_schedule now) \<and>
   (driver1_points c = driver2_points c \<and> driver1_wins c = driver2_wins c \<longrightarrow>
      driver1_points (compare_round driver driver s c) =
        driver2_points (compare_round driver driver s c) \<and>
      driver1_wins (compare_round driver driver s c) =
        driver2_wins (compare_round driver driver s c)) \<and>
   (entry \<in> set (compare_drivers env driver driver years) \<longrightarrow>
      (\<exists>y sch t. y \<in> set years \<and> get_race_schedule env y = Some sch \<and>
         entry = comparison_record driver driver y (season_counters env driver driver y sch t) \<and>
         dict_get entry (driver @ '' Points'') =
           Some (Points_cell (driver1_points (season_counters env driver driver y sch t))) \<and>
         dict_get entry (driver @ '' Points'') =
           Some (Points_cell (driver2_points (season_counters env driver driver y sch t))) \<and>
         dict_get entry (driver @ '' Wins'') =
           Some (Wins_cell (driver1_wins (season_counters env driver driver y sch t))) \<and>
         dict_get entry (driver @ '' Wins'') =
           Some (Wins_cell (driver2_wins (season_counters env driver driver y sch t)))))"
proof (intro conjI impI)
  show "driver1_points (season_counters env driver driver year race_schedule now) =
     driver2_points (season_counters env driver driver year race_schedule now)"
    by (simp add: season_counters_fields)
  show "driver1_wins (season_counters env driver driver year race_schedule now) =
     driver2_wins (season_counters env driver driver year race_schedule now)"
    by (simp add: season_counters_fields)
next
  assume "driver1_points c = driver2_points c \<and> driver1_wins c = driver2_wins c"
  then show "driver1_points (compare_round driver driver s c) =
        driver2_points (compare_round driver driver s c)"
    and "driver1_wins (compare_round driver driver s c) =
        driver2_wins (compare_round driver driver s c)"
    by (simp_all add: compare_round_fields)
next
  assume "entry \<in> set (compare_drivers env driver driver years)"
  then obtain y sch t
    where y: "y \<in> set years" and sch: "get_race_schedule env y = Some sch"
      and entry: "entry = comparison_record driver driver y
                    (season_counters env driver driver y sch t)"
    unfolding compare_drivers_def by (blast dest: compare_years_entry)
  let ?c = "season_counters env driver driver y sch t"
  have points: "driver1_points ?c = driver2_points ?c"
    by (simp add: season_counters_fields)
  have wins: "driver1_wins ?c = driver2_wins ?c"
    by (simp add: season_counters_fields)
  have p2: "dict_get entry (driver @ '' Points'') = Some (Points_cell (driver2_points ?c))"
    unfolding entry by (rule comparison_record_lookup)
  have w2: "dict_get entry (driver @ '' Wins'') = Some (Wins_cell (driver2_wins ?c))"
    unfolding entry by (rule comparison_record_lookup)
  from p2 points have p1: "dict_get entry (driver @ '' Points'') = Some (Points_cell (driver1_points ?c))"
    by simp
  from w2 wins have w1: "dict_get entry (driver @ '' Wins'') = Some (Wins_cell (driver1_wins ?c))"
    by simp
  from y sch entry p1 p2 w1 w2
  show "\<exists>y sch t. y \<in> set years \<and> get_race_schedule env y = Some sch \<and>
         entry = comparison_record driver driver y (season_counters env driver driver y sch t) \<and>
         dict_get entry (driver @ '' Points'') =
           Some (Points_cell (driver1_points (season_counters env driver driver y sch t))) \<and>
         dict_get entry (driver @ '' Points'') =
           Some (Points_cell (driver2_points (season_counters env driver driver y sch t))) \<and>
         dict_get entry (driver @ '' Wins'') =
           Some (Wins_cell (driver1_wins (season_counters env driver driver y sch t))) \<and>
         dict_get entry (driver @ '' Wins'') =
           Some (Wins_cell (driver2_wins (season_counters env driver driver y sch t)))"
    by blast
qed

lemma season_round_points:
  "round_points ''VER'' race_a = 25" "round_points ''VER'' race_b = 25"
  "round_points ''HAM'' race_a = 18" "round_points ''HAM'' race_b = 0"
  "round_points ''BOT'' race_a = 0"
  by (simp_all add: round_points_def driver_result_def race_a_def race_b_def row_def)

lemma season_round_win:
  "round_win ''VER'' race_a = 1" "round_win ''VER'' race_b = 1"
  "round_win ''HAM'' race_a = 0" "round_win ''HAM'' race_b = 0"
  "round_win ''BOT'' race_a = 0"
  by (simp_all add: round_win_def driver_result_def race_a_def race_b_def row_def)

lemma season_clock: "clock season n = 500"
  by (simp add: season_def)

lemma season_compare_years:
  "compare_drivers season d1 d2 [2021, 2020, 2022] =
     [season_record season d1 d2 2021 500, season_record season d1 d2 2022 500]"
  by (simp add: compare_drivers_def compare_years_enumerate season_2021 season_2020 season_2022
      season_clock)

text \<open>
  The claim as it was stated fails for a list with a year whose schedule cannot be read:
  three years are passed and two records come back.
\<close>

theorem one_record_per_year_counterexample:
  "get_race_schedule season 2020 = None \<and>
   map (\<lambda>entry. dict_get entry ''Year'') (compare_drivers season ''VER'' ''HAM'' [2021, 2020, 2022]) =
     [Some (Year_cell 2021), Some (Year_cell 2022)] \<and>
   length (compare_drivers season ''VER'' ''HAM'' [2021, 2020, 2022]) \<noteq>
     length [2021, 2020, 2022 :: int]"
  by (simp add: season_compare_years season_2020
      season_record_lookup [OF season_2021] season_record_lookup [OF season_2022])


theorem lookup_miss_counts_zero_witness:
  "list_all (\<lambda>r. Abbreviation r \<noteq> ''BOT'') (results race_a) \<and>
   driver2_points (compare_round ''VER'' ''BOT'' race_a zero_counters) = 0 \<and>
   driver2_wins (compare_round ''VER'' ''BOT'' race_a zero_counters) = 0 \<and>
   driver1_points (compare_round ''VER'' ''BOT'' race_a zero_counters) = 25 \<and>
   driver1_wins (compare_round ''VER'' ''BOT'' race_a zero_counters) = 1"
proof -
  note inst = lookup_miss_counts_zero [where s = race_a and c = zero_counters
      and ?driver1.0 = "''VER''" and ?driver2.0 = "''BOT''"]
  have absent: "\<forall>r\<in>set (results race_a). Abbreviation r \<noteq> ''BOT''"
    by (simp add: race_a_def row_def)
  then have 0: "list_all (\<lambda>r. Abbreviation r \<noteq> ''BOT'') (results race_a)"
    by (simp add: list_all_iff)
  from inst [THEN conjunct2, THEN conjunct1] absent
  have "driver2_points (compare_round ''VER'' ''BOT'' race_a zero_counters) =
          driver2_points zero_counters \<and>
        driver2_wins (compare_round ''VER'' ''BOT'' race_a zero_counters) =
          driver2_wins zero_counters"
    by (rule mp)
  then have 1: "driver2_points (compare_round ''VER'' ''BOT'' race_a zero_counters) = 0"
    and 2: "driver2_wins (compare_round ''VER'' ''BOT'' race_a zero_counters) = 0"
    by (simp_all add: zero_counters_def)
  have first: "driver_result ''VER'' race_a = [row ''VER'' ''Red Bull'' (Some 1) 25 ''Finished'']"
    by (simp add: driver_result_def race_a_def row_def)
  from inst [THEN conjunct2, THEN conjunct2, THEN conjunct2, THEN conjunct2, THEN conjunct1]
  have 3: "driver1_points (compare_round ''VER'' ''BOT'' race_a zero_counters) = 25"
    unfolding first by (simp add: zero_counters_def row_def)
  from inst [THEN conjunct2, THEN conjunct2, THEN conjunct1]
  have 4: "driver1_wins (compare_round ''VER'' ''BOT'' race_a zero_counters) = 1"
    unfolding first by (simp add: zero_counters_def row_def)
  from 0 1 2 3 4 show ?thesis
    by (intro conjI)
qed

theorem one_record_per_scheduled_year_witness:
  "get_race_schedule season 2022 = Some [\<lparr>RoundNumber = 1, EventDate = Some 400\<rparr>] \<and>
   compare_drivers season ''VER'' ''HAM'' [2021, 2020, 2022] =
     [season_record season ''VER'' ''HAM'' 2021 500, season_record season ''VER'' ''HAM'' 2022 500] \<and>
   dict_get (season_record season ''VER'' ''HAM'' 2022 500) ''Year'' = Some (Year_cell 2022) \<and>
   dict_get (season_record season ''VER'' ''HAM'' 2022 500) ''VER Points'' = Some (Points_cell 25) \<and>
   dict_get (season_record season ''VER'' ''HAM'' 2022 500) ''VER Wins'' = Some (Wins_cell 1) \<and>
   dict_get (season_record season ''VER'' ''HAM'' 2022 500) ''HAM Points'' = Some (Points_cell 18) \<and>
   dict_get (season_record season ''VER'' ''HAM'' 2022 500) ''HAM Wins'' = Some (Wins_cell 0)"
proof -
  note inst = one_record_per_scheduled_year [where env = season and ?driver1.0 = "''VER''"
      and ?driver2.0 = "''HAM''" and years = "[2021, 2020, 2022]" and year = 2022 and now = 500
      and race_schedule = "[\<lparr>RoundNumber = 1, EventDate = Some 400\<rparr>]"]
  from inst [THEN conjunct1]
  have 1: "compare_drivers season ''VER'' ''HAM'' [2021, 2020, 2022] =
     [season_record season ''VER'' ''HAM'' 2021 500, season_record season ''VER'' ''HAM'' 2022 500]"
    by (simp add: season_2021 season_2020 season_2022 season_clock)
  have rounds: "completed_rounds [\<lparr>RoundNumber = 1, EventDate = Some 400\<rparr>] 500 = [1]"
    using season_2022_rounds by (simp add: season_clock)
  from inst [THEN conjunct2] season_2022
  have "dict_get (season_record season ''VER'' ''HAM'' 2022 500) ''Year'' = Some (Year_cell 2022) \<and>
      dict_get (season_record season ''VER'' ''HAM'' 2022 500) (''VER'' @ '' Points'') =
        Some (Points_cell (\<Sum>s\<leftarrow>loaded_sessions season 2022 [1]. round_points ''VER'' s)) \<and>
      dict_get (season_record season ''VER'' ''HAM'' 2022 500) (''HAM'' @ '' Points'') =
        Some (Points_cell (\<Sum>s\<leftarrow>loaded_sessions season 2022 [1]. round_points ''HAM'' s)) \<and>
      dict_get (season_record season ''VER'' ''HAM'' 2022 500) (''VER'' @ '' Wins'') =
        Some (Wins_cell (\<Sum>s\<leftarrow>loaded_sessions season 2022 [1]. round_win ''VER'' s)) \<and>
      dict_get (season_record season ''VER'' ''HAM'' 2022 500) (''HAM'' @ '' Wins'') =
        Some (Wins_cell (\<Sum>s\<leftarrow>loaded_sessions season 2022 [1]. round_win ''HAM'' s))"
    unfolding rounds by (rule mp)
  then have 2: "dict_get (season_record season ''VER'' ''HAM'' 2022 500) ''Year'' = Some (Year_cell 2022) \<and>
   dict_get (season_record season ''VER'' ''HAM'' 2022 500) ''VER Points'' = Some (Points_cell 25) \<and>
   dict_get (season_record season ''VER'' ''HAM'' 2022 500) ''VER Wins'' = Some (Wins_cell 1) \<and>
   dict_get (season_record season ''VER'' ''HAM'' 2022 500) ''HAM Points'' = Some (Points_cell 18) \<and>
   dict_get (season_record season ''VER'' ''HAM'' 2022 500) ''HAM Wins'' = Some (Wins_cell 0)"
    unfolding season_2022_loaded by (simp add: season_round_points season_round_win)
  from season_2022 1 2 show ?thesis
    by (intro conjI) (elim conjE, assumption)+
qed

lemma season_same_driver:
  "compare_drivers season ''VER'' ''VER'' [2021] =
     [[(''Year'', Year_cell 2021), (''VER Points'', Points_cell 50), (''VER Wins'', Wins_cell 2)]]"
proof -
  let ?c = "season_counters season ''VER'' ''VER'' 2021
     [\<lparr>RoundNumber = 1, EventDate = Some 100\<rparr>,
      \<lparr>RoundNumber = 2, EventDate = Some 200\<rparr>,
      \<lparr>RoundNumber = 3, EventDate = Some 300\<rparr>,
      \<lparr>RoundNumber = 4, EventDate = Some 900\<rparr>,
      \<lparr>RoundNumber = 5, EventDate = None\<rparr>] (clock season 0)"
  have fields: "driver1_points ?c = 50" "driver2_points ?c = 50"
      "driver1_wins ?c = 2" "driver2_wins ?c = 2"
    unfolding season_counters_fields season_2021_rounds season_2021_loaded
    by (simp_all add: season_round_points season_round_win)
  have "compare_drivers season ''VER'' ''VER'' [2021] = [comparison_record ''VER'' ''VER'' 2021 ?c]"
    by (simp add: compare_drivers_def season_2021)
  then show ?thesis
    by (simp add: comparison_record_def fields)
qed

theorem same_driver_equal_columns_witness:
  "[(''Year'', Year_cell 2021), (''VER Points'', Points_cell 50), (''VER Wins'', Wins_cell 2)]
     \<in> set (compare_drivers season ''VER'' ''VER'' [2021]) \<and>
   driver2_points (season_counters season ''VER'' ''VER'' 2021
     [\<lparr>RoundNumber = 1, EventDate = Some 100\<rparr>,
      \<lparr>RoundNumber = 2, EventDate = Some 200\<rparr>,
      \<lparr>RoundNumber = 3, EventDate = Some 300\<rparr>,
      \<lparr>RoundNumber = 4, EventDate = Some 900\<rparr>,
      \<lparr>RoundNumber = 5, EventDate = None\<rparr>] (clock season 0)) = 50 \<and>
   driver1_points (season_counters season ''VER'' ''VER'' 2021
     [\<lparr>RoundNumber = 1, EventDate = Some 100\<rparr>,
      \<lparr>RoundNumber = 2, EventDate = Some 200\<rparr>,
      \<lparr>RoundNumber = 3, EventDate = Some 300\<rparr>,
      \<lparr>RoundNumber = 4, EventDate = Some 900\<rparr>,
      \<lparr>RoundNumber = 5, EventDate = None\<rparr>] (clock season 0)) = 50 \<and>
   driver2_wins (season_counters season ''VER'' ''VER'' 2021
     [\<lparr>RoundNumber = 1, EventDate = Some 100\<rparr>,
      \<lparr>RoundNumber = 2, EventDate = Some 200\<rparr>,
      \<lparr>RoundNumber = 3, EventDate = Some 300\<rparr>,
      \<lparr>RoundNumber = 4, EventDate = Some 900\<rparr>,
      \<lparr>RoundNumber = 5, EventDate = None\<rparr>] (clock season 0)) = 2 \<and>
   driver1_wins (season_counters season ''VER'' ''VER'' 2021
     [\<lparr>RoundNumber = 1, EventDate = Some 100\<rparr>,
      \<lparr>RoundNumber = 2, EventDate = Some 200\<rparr>,
      \<lparr>RoundNumber = 3, EventDate = Some 300\<rparr>,
      \<lparr>RoundNumber = 4, EventDate = Some 900\<rparr>,
      \<lparr>RoundNumber = 5, EventDate = None\<rparr>] (clock season 0)) = 2 \<and>
   (\<exists>y sch t. y \<in> set [2021] \<and> get_race_schedule season y = Some sch \<and>
      [(''Year'', Year_cell 2021), (''VER Points'', Points_cell 50), (''VER Wins'', Wins_cell 2)] =
        comparison_record ''VER'' ''VER'' y (season_counters season ''VER'' ''VER'' y sch t) \<and>
      Some (Points_cell 50) =
        Some (Points_cell (driver1_points (season_counters season ''VER'' ''VER'' y sch t))) \<and>
      Some (Wins_cell 2) =
        Some (Wins_cell (driver1_wins (season_counters season ''VER'' ''VER'' y sch t))))"
proof -
  let ?entry = "[(''Year'', Year_cell 2021), (''VER Points'', Points_cell 50), (''VER Wins'', Wins_cell 2)]"
  let ?sch = "[\<lparr>RoundNumber = 1, EventDate = Some 100\<rparr>,
      \<lparr>RoundNumber = 2, EventDate = Some 200\<rparr>,
      \<lparr>RoundNumber = 3, EventDate = Some 300\<rparr>,
      \<lparr>RoundNumber = 4, EventDate = Some 900\<rparr>,
      \<lparr>RoundNumber = (5::int), EventDate = None\<rparr>]"
  let ?c = "season_counters season ''VER'' ''VER'' 2021 ?sch (clock season 0)"
  note inst = same_driver_equal_columns [where env = season and driver = "''VER''"
      and year = 2021 and race_schedule = ?sch and now = "clock season 0"
      and entry = ?entry and years = "[2021]"]
  have member: "?entry \<in> set (compare_drivers season ''VER'' ''VER'' [2021])"
    by (simp add: season_same_driver)
  have p2: "driver2_points ?c = 50"
    unfolding season_counters_fields season_2021_rounds season_2021_loaded
    by (simp add: season_round_points)
  have w2: "driver2_wins ?c = 2"
    unfolding season_counters_fields season_2021_rounds season_2021_loaded
    by (simp add: season_round_win)
  from inst [THEN conjunct1] p2 have p1: "driver1_points ?c = 50"
    by simp
  from inst [THEN conjunct2, THEN conjunct1] w2 have w1: "driver1_wins ?c = 2"
    by simp
  have get: "dict_get ?entry (''VER'' @ '' Points'') = Some (Points_cell 50)"
      "dict_get ?entry (''VER'' @ '' Wins'') = Some (Wins_cell 2)"
    by (simp_all add: dict_get_def)
  from inst [THEN conjunct2, THEN conjunct2, THEN conjunct2] member
  have "\<exists>y sch t. y \<in> set [2021] \<and> get_race_schedule season y = Some sch \<and>
         ?entry = comparison_record ''VER'' ''VER'' y (season_counters season ''VER'' ''VER'' y sch t) \<and>
         dict_get ?entry (''VER'' @ '' Points'') =
           Some (Points_cell (driver1_points (season_counters season ''VER'' ''VER'' y sch t))) \<and>
         dict_get ?entry (''VER'' @ '' Points'') =
           Some (Points_cell (driver2_points (season_counters season ''VER'' ''VER'' y sch t))) \<and>
         dict_get ?entry (''VER'' @ '' Wins'') =
           Some (Wins_cell (driver1_wins (season_counters season ''VER'' ''VER'' y sch t))) \<and>
         dict_get ?entry (''VER'' @ '' Wins'') =
           Some (Wins_cell (driver2_wins (season_counters season ''VER'' ''VER'' y sch t)))"
    by (rule mp)
  then have rec: "\<exists>y sch t. y \<in> set [2021] \<and> get_race_schedule season y = Some sch \<and>
      ?entry = comparison_record ''VER'' ''VER'' y (season_counters season ''VER'' ''VER'' y sch t) \<and>
      Some (Points_cell 50) =
        Some (Points_cell (driver1_points (season_counters season ''VER'' ''VER'' y sch t))) \<and>
      Some (Wins_cell 2) =
        Some (Wins_cell (driver1_wins (season_counters season ''VER'' ''VER'' y sch t)))"
    unfolding get by blast
  from member p2 p1 w2 w1 rec show ?thesis
    by (intro conjI)
qed

section \<open>The season export\<close>

lemma dict_get_add_points: "dict_get (add_points k p d) k \<noteq> None"
  by (simp add: add_points_def dict_get_dict_set split: option.splits)

lemma dict_item_add_points:
  "dict_item (add_points k p d) k' = (if k' = k then dict_item d k + p else dict_item d k')"
  by (simp add: dict_item_def add_points_def dict_get_dict_set split: option.splits)

lemma keys_add_points: "fst ` set (add_points k p d) = insert k (fst ` set d)"
  by (simp add: add_points_def keys_dict_set split: option.splits)

lemma distinct_add_points: "distinct (map fst d) \<Longrightarrow> distinct (map fst (add_points k p d))"
  by (simp add: add_points_def distinct_dict_set split: option.splits)

lemma export_result_fields:
  "driver_points (export_result rn name r st) = add_points (Abbreviation r) (Points r) (driver_points st)"
  "team_points (export_result rn name r st) = add_points (TeamName r) (Points r) (team_points st)"
  "map Driver (all_results (export_result rn name r st)) =
     map Driver (all_results st) @ [Abbreviation r]"
  "map CumulativePoints (all_results (export_result rn name r st)) =
     map CumulativePoints (all_results st) @ [dict_item (driver_points st) (Abbreviation r) + Points r]"
  by (simp_all add: export_result_def Let_def dict_item_add_points)

lemma points_of_simps:
  "points_of d [] = 0"
  "points_of d (r # rows) = (if Abbreviation r = d then Points r + points_of d rows else points_of d rows)"
  "points_of d (rows @ rows') = points_of d rows + points_of d rows'"
  by (simp_all add: points_of_def)

lemma export_results_driver_points:
  "dict_item (driver_points (export_results rn name rows st)) d =
   dict_item (driver_points st) d + points_of d rows"
  by (induction rows arbitrary: st)
     (simp_all add: export_result_fields dict_item_add_points points_of_simps)

lemma export_results_Driver:
  "map Driver (all_results (export_results rn name rows st)) =
   map Driver (all_results st) @ map Abbreviation rows"
  by (induction rows arbitrary: st) (simp_all add: export_result_fields)

lemma export_results_Cumulative:
  "distinct (map Abbreviation rows) \<Longrightarrow>
   map CumulativePoints (all_results (export_results rn name rows st)) =
   map CumulativePoints (all_results st) @
   map (\<lambda>r. dict_item (driver_points st) (Abbreviation r) + Points r) rows"
proof (induction rows arbitrary: st)
  case Nil
  show ?case by simp
next
  case (Cons r rows)
  let ?st = "export_result rn name r st"
  have other: "dict_item (driver_points ?st) (Abbreviation r') = dict_item (driver_points st) (Abbreviation r')"
    if "r' \<in> set rows" for r'
  proof -
    from that have "Abbreviation r' \<in> Abbreviation ` set rows"
      by (rule imageI)
    with Cons.prems have "Abbreviation r' \<noteq> Abbreviation r"
      by auto
    then show ?thesis
      by (simp add: export_result_fields dict_item_add_points)
  qed
  from Cons.prems have "distinct (map Abbreviation rows)"
    by simp
  then have "map CumulativePoints (all_results (export_results rn name rows ?st)) =
      map CumulativePoints (all_results ?st) @
      map (\<lambda>r'. dict_item (driver_points ?st) (Abbreviation r') + Points r') rows"
    by (rule Cons.IH)
  also have "map (\<lambda>r'. dict_item (driver_points ?st) (Abbreviation r') + Points r') rows =
      map (\<lambda>r'. dict_item (driver_points st) (Abbreviation r') + Points r') rows"
    by (rule map_cong) (simp_all add: other)
  finally show ?case
    by (simp add: export_result_fields)
qed

lemma points_of_absent: "d \<notin> Abbreviation ` set rows \<Longrightarrow> points_of d rows = 0"
  by (induction rows) (auto simp: points_of_simps)

lemma points_of_own_row:
  "distinct (map Abbreviation rows) \<Longrightarrow> r \<in> set rows \<Longrightarrow> points_of (Abbreviation r) rows = Points r"
  by (induction rows) (auto simp: points_of_simps points_of_absent)

lemma export_results_keys:
  "fst ` set (driver_points (export_results rn name rows st)) =
   fst ` set (driver_points st) \<union> Abbreviation ` set rows"
  by (induction rows arbitrary: st) (auto simp: export_result_fields keys_add_points)

lemma export_results_distinct:
  "distinct (map fst (driver_points st)) \<Longrightarrow>
   distinct (map fst (driver_points (export_results rn name rows st)))"
  by (induction rows arbitrary: st) (simp_all add: export_result_fields distinct_add_points)

lemma export_loop_keys:
  "fst ` set (driver_points (export_loop env year rounds st)) =
   fst ` set (driver_points st) \<union>
   Abbreviation ` set (concat (map results (loaded_sessions env year rounds)))"
  by (induction rounds arbitrary: st) (auto simp: export_results_keys split: option.splits)

lemma export_loop_distinct:
  "distinct (map fst (driver_points st)) \<Longrightarrow>
   distinct (map fst (driver_points (export_loop env year rounds st)))"
  by (induction rounds arbitrary: st) (simp_all add: export_results_distinct split: option.splits)

lemma export_loop_Driver:
  "map Driver (all_results (export_loop env year rounds st)) =
   map Driver (all_results st) @
   map Abbreviation (concat (map results (loaded_sessions env year rounds)))"
  by (induction rounds arbitrary: st) (simp_all add: export_results_Driver split: option.splits)

lemma export_loop_driver_points:
  "dict_item (driver_points (export_loop env year rounds st)) d =
   dict_item (driver_points st) d +
   points_of d (concat (map results (loaded_sessions env year rounds)))"
  by (induction rounds arbitrary: st)
     (simp_all add: export_results_driver_points points_of_simps split: option.splits)

lemma export_loop_Cumulative:
  assumes "\<forall>s\<in>set (loaded_sessions env year rounds). distinct (map Abbreviation (results s))"
    and "\<forall>d. dict_item (driver_points st) d = points_of d earlier"
  shows "map CumulativePoints (all_results (export_loop env year rounds st)) =
         map CumulativePoints (all_results st) @
         expected_cumulative earlier (map results (loaded_sessions env year rounds))"
  using assms
proof (induction rounds arbitrary: st earlier)
  case Nil
  show ?case by simp
next
  case (Cons r rounds)
  show ?case
  proof (cases "get_session env year r")
    case None
    with Cons show ?thesis by simp
  next
    case (Some s)
    let ?st = "export_results r (EventName s) (results s) st"
    from Cons.prems(1) Some have uniq: "distinct (map Abbreviation (results s))"
      and rest: "\<forall>s\<in>set (loaded_sessions env year rounds). distinct (map Abbreviation (results s))"
      by simp_all
    have totals: "\<forall>d. dict_item (driver_points ?st) d = points_of d (earlier @ results s)"
      using Cons.prems(2) by (simp add: export_results_driver_points points_of_simps)
    have "map (\<lambda>x. dict_item (driver_points st) (Abbreviation x) + Points x) (results s) =
          map (\<lambda>x. points_of (Abbreviation x) (earlier @ results s)) (results s)"
      using Cons.prems(2) uniq
      by (intro map_cong) (simp_all add: points_of_simps points_of_own_row)
    then have here: "map CumulativePoints (all_results ?st) =
        map CumulativePoints (all_results st) @
        map (\<lambda>x. points_of (Abbreviation x) (earlier @ results s)) (results s)"
      using export_results_Cumulative [OF uniq, of r "EventName s" st] by simp
    have "map CumulativePoints (all_results (export_loop env year rounds ?st)) =
         map CumulativePoints (all_results ?st) @
         expected_cumulative (earlier @ results s) (map results (loaded_sessions env year rounds))"
      using rest totals by (rule Cons.IH)
    with here Some show ?thesis
      by simp
  qed
qed

lemma export_result_last:
  "\<exists>x. all_results (export_result rn name r st) = all_results st @ [x] \<and>
       Driver x = Abbreviation r \<and>
       CumulativePoints x = dict_item (driver_points (export_result rn name r st)) (Abbreviation r)"
  by (simp add: export_result_def Let_def)

lemma last_row_export_result:
  assumes "\<forall>d\<in>set (map Driver (all_results st)).
             CumulativePoints (last (filter (\<lambda>x. Driver x = d) (all_results st))) =
             dict_item (driver_points st) d"
  shows "\<forall>d\<in>set (map Driver (all_results (export_result rn name r st))).
           CumulativePoints (last (filter (\<lambda>x. Driver x = d)
             (all_results (export_result rn name r st)))) =
           dict_item (driver_points (export_result rn name r st)) d"
proof
  fix d
  let ?st = "export_result rn name r st"
  assume d: "d \<in> set (map Driver (all_results ?st))"
  from export_result_last [of rn name r st] obtain x
    where app: "all_results ?st = all_results st @ [x]"
      and drv: "Driver x = Abbreviation r"
      and cum: "CumulativePoints x = dict_item (driver_points ?st) (Abbreviation r)"
    by blast
  show "CumulativePoints (last (filter (\<lambda>x. Driver x = d) (all_results ?st))) =
        dict_item (driver_points ?st) d"
  proof (cases "d = Abbreviation r")
    case True
    with app drv cum show ?thesis by simp
  next
    case False
    with d app drv have old: "d \<in> set (map Driver (all_results st))"
      by auto
    from False drv app have "filter (\<lambda>x. Driver x = d) (all_results ?st) =
        filter (\<lambda>x. Driver x = d) (all_results st)"
      by simp
    moreover from False have "dict_item (driver_points ?st) d = dict_item (driver_points st) d"
      by (simp add: export_result_fields dict_item_add_points)
    moreover from assms old
    have "CumulativePoints (last (filter (\<lambda>x. Driver x = d) (all_results st))) =
        dict_item (driver_points st) d"
      by (rule bspec)
    ultimately show ?thesis
      by simp
  qed
qed

lemma last_row_export_results:
  "\<forall>d\<in>set (map Driver (all_results st)).
     CumulativePoints (last (filter (\<lambda>x. Driver x = d) (all_results st))) =
     dict_item (driver_points st) d \<Longrightarrow>
   \<forall>d\<in>set (map Driver (all_results (export_results rn name rows st))).
     CumulativePoints (last (filter (\<lambda>x. Driver x = d)
       (all_results (export_results rn name rows st)))) =
     dict_item (driver_points (export_results rn name rows st)) d"
proof (induction rows arbitrary: st)
  case Nil
  then show ?case by simp
next
  case (Cons r rows)
  from Cons.prems have "\<forall>d\<in>set (map Driver (all_results (export_result rn name r st))).
           CumulativePoints (last (filter (\<lambda>x. Driver x = d)
             (all_results (export_result rn name r st)))) =
           dict_item (driver_points (export_result rn name r st)) d"
    by (rule last_row_export_result)
  then show ?case
    unfolding export_results.simps by (rule Cons.IH)
qed

lemma last_row_export_loop:
  "\<forall>d\<in>set (map Driver (all_results st)).
     CumulativePoints (last (filter (\<lambda>x. Driver x = d) (all_results st))) =
     dict_item (driver_points st) d \<Longrightarrow>
   \<forall>d\<in>set (map Driver (all_results (export_loop env year rounds st))).
     CumulativePoints (last (filter (\<lambda>x. Driver x = d)
       (all_results (export_loop env year rounds st)))) =
     dict_item (driver_points (export_loop env year rounds st)) d"
proof (induction rounds arbitrary: st)
  case Nil
  then show ?case by simp
next
  case (Cons r rounds)
  show ?case
  proof (cases "get_session env year r")
    case None
    with Cons show ?thesis by simp
  next
    case (Some s)
    from Cons.prems have "\<forall>d\<in>set (map Driver (all_results (export_results r (EventName s) (results s) st))).
       CumulativePoints (last (filter (\<lambda>x. Driver x = d)
         (all_results (export_results r (EventName s) (results s) st)))) =
       dict_item (driver_points (export_results r (EventName s) (results s) st)) d"
      by (rule last_row_export_results)
    then have "\<forall>d\<in>set (map Driver (all_results
          (export_loop env year rounds (export_results r (EventName s) (results s) st)))).
       CumulativePoints (last (filter (\<lambda>x. Driver x = d)
         (all_results (export_loop env year rounds (export_results r (EventName s) (results s) st))))) =
       dict_item (driver_points
         (export_loop env year rounds (export_results r (EventName s) (results s) st))) d"
      by (rule Cons.IH)
    with Some show ?thesis by simp
  qed
qed

lemma dict_get_standings:
  assumes "distinct (map fst points)"
  shows "dict_get (standings points) k = dict_get points k"
proof -
  have "distinct (map fst (standings points))"
    using assms by (simp add: standings_def distinct_map_sort_key)
  moreover have "set (standings points) = set points"
    by (simp add: standings_def)
  ultimately have "map_of (standings points) = map_of points"
    using assms by (simp add: map_of_inject_set)
  then show ?thesis
    by (simp add: dict_get_def)
qed

lemma dict_get_item:
  "dict_get d k = (if k \<in> fst ` set d then Some (dict_item d k) else None)"
proof (cases "dict_get d k")
  case None
  then show ?thesis
    by (simp add: dict_get_def map_of_eq_None_iff)
next
  case (Some v)
  then have "k \<in> fst ` set d"
    unfolding dict_get_def using map_of_eq_None_iff [of d k] by auto
  with Some show ?thesis
    by (simp add: dict_item_def)
qed

lemma row_cumulative_append:
  "row_cumulative earlier (xs @ ys) = row_cumulative earlier xs @ row_cumulative (earlier @ xs) ys"
  by (induction xs arbitrary: earlier) simp_all

lemma export_results_row_cumulative:
  "\<forall>d. dict_item (driver_points st) d = points_of d earlier \<Longrightarrow>
   map CumulativePoints (all_results (export_results rn name rows st)) =
   map CumulativePoints (all_results st) @ row_cumulative earlier rows"
proof (induction rows arbitrary: st earlier)
  case Nil
  show ?case by simp
next
  case (Cons r rows)
  let ?st = "export_result rn name r st"
  from Cons.prems have "\<forall>d. dict_item (driver_points ?st) d = points_of d (earlier @ [r])"
    by (simp add: export_result_fields dict_item_add_points points_of_simps)
  then have "map CumulativePoints (all_results (export_results rn name rows ?st)) =
      map CumulativePoints (all_results ?st) @ row_cumulative (earlier @ [r]) rows"
    by (rule Cons.IH)
  with Cons.prems show ?case
    by (simp add: export_result_fields points_of_simps)
qed

lemma export_loop_row_cumulative:
  "\<forall>d. dict_item (driver_points st) d = points_of d earlier \<Longrightarrow>
   map CumulativePoints (all_results (export_loop env year rounds st)) =
   map CumulativePoints (all_results st) @
   row_cumulative earlier (concat (map results (loaded_sessions env year rounds)))"
proof (induction rounds arbitrary: st earlier)
  case Nil
  show ?case by simp
next
  case (Cons r rounds)
  show ?case
  proof (cases "get_session env year r")
    case None
    with Cons show ?thesis by simp
  next
    case (Some s)
    let ?st = "export_results r (EventName s) (results s) st"
    from Cons.prems have "\<forall>d. dict_item (driver_points ?st) d = points_of d (earlier @ results s)"
      by (simp add: export_results_driver_points points_of_simps)
    then have "map CumulativePoints (all_results (export_loop env year rounds ?st)) =
        map CumulativePoints (all_results ?st) @
        row_cumulative (earlier @ results s)
          (concat (map results (loaded_sessions env year rounds)))"
      by (rule Cons.IH)
    with Some Cons.prems show ?thesis
      by (simp add: export_results_row_cumulative row_cumulative_append)
  qed
qed

text \<open>
  Claim C10, as amended. Let the schedule of the year be readable. Then
  \<open>export_full_season_details\<close> returns one row per result row of the loaded rounds, in
  order, and the \<^verbatim>\<open>CumulativePoints\<close> of a row is the sum of the points of its driver over
  the rows up to and including that row. When every loaded round lists each abbreviation
  at most once, this is the sum of the driver's points over the loaded rounds up to and
  including the round of the row. In every case the \<^verbatim>\<open>CumulativePoints\<close> of a driver's
  last row is the driver's total in the exported driver standings, which is the sum of the
  driver's points over all loaded rounds.
\<close>

theorem cumulative_points_are_running_totals:
  assumes "get_race_schedule env year = Some race_schedule"
  shows "\<exists>rows driver_standings team_standings.
           export_full_season_details env year = Some (rows, driver_standings, team_standings) \<and>
           map Driver rows =
             map Abbreviation (concat (map results
               (loaded_sessions env year (completed_rounds race_schedule (clock env 0))))) \<and>
           map CumulativePoints rows =
             row_cumulative [] (concat (map results
               (loaded_sessions env year (completed_rounds race_schedule (clock env 0))))) \<and>
           ((\<forall>s\<in>set (loaded_sessions env year (completed_rounds race_schedule (clock env 0))).
               distinct (map Abbreviation (results s))) \<longrightarrow>
            map CumulativePoints rows =
              expected_cumulative [] (map results
                (loaded_sessions env year (completed_rounds race_schedule (clock env 0))))) \<and>
           (\<forall>d\<in>set (map Driver rows).
              dict_get driver_standings d =
                Some (CumulativePoints (last (filter (\<lambda>x. Driver x = d) rows))) \<and>
              dict_get driver_standings d =
                Some (points_of d (concat (map results
                  (loaded_sessions env year (completed_rounds race_schedule (clock env 0)))))))"
proof -
  let ?rounds = "completed_rounds race_schedule (clock env 0)"
  let ?st = "export_loop env year ?rounds empty_export"
  let ?all = "concat (map results (loaded_sessions env year ?rounds))"
  have ret: "export_full_season_details env year =
      Some (all_results ?st, standings (driver_points ?st), standings (team_points ?st))"
    using assms by (simp add: export_full_season_details_def Let_def)
  have drivers: "map Driver (all_results ?st) = map Abbreviation ?all"
    using export_loop_Driver [of env year ?rounds empty_export] by (simp add: empty_export_def)
  have start: "\<forall>d. dict_item (driver_points empty_export) d = points_of d []"
    by (simp add: empty_export_def dict_item_def dict_get_def points_of_simps)
  have running: "map CumulativePoints (all_results ?st) = row_cumulative [] ?all"
    using export_loop_row_cumulative [OF start] by (simp add: empty_export_def)
  have cumulative: "(\<forall>s\<in>set (loaded_sessions env year ?rounds).
        distinct (map Abbreviation (results s))) \<longrightarrow>
      map CumulativePoints (all_results ?st) =
      expected_cumulative [] (map results (loaded_sessions env year ?rounds))"
  proof
    assume uniq: "\<forall>s\<in>set (loaded_sessions env year ?rounds).
        distinct (map Abbreviation (results s))"
    show "map CumulativePoints (all_results ?st) =
      expected_cumulative [] (map results (loaded_sessions env year ?rounds))"
      using export_loop_Cumulative [OF uniq start] by (simp add: empty_export_def)
  qed
  have keys: "fst ` set (driver_points ?st) = set (map Driver (all_results ?st))"
    unfolding drivers using export_loop_keys [of env year ?rounds empty_export]
    by (simp add: empty_export_def)
  have dist: "distinct (map fst (driver_points ?st))"
    by (rule export_loop_distinct) (simp add: empty_export_def)
  have lookup: "dict_get (standings (driver_points ?st)) d = Some (dict_item (driver_points ?st) d)"
    if "d \<in> set (map Driver (all_results ?st))" for d
    unfolding dict_get_standings [OF dist] using that keys by (simp add: dict_get_item)
  have "\<forall>d\<in>set (map Driver (all_results empty_export)).
     CumulativePoints (last (filter (\<lambda>x. Driver x = d) (all_results empty_export))) =
     dict_item (driver_points empty_export) d"
    by (simp add: empty_export_def)
  then have last_row: "\<forall>d\<in>set (map Driver (all_results ?st)).
     CumulativePoints (last (filter (\<lambda>x. Driver x = d) (all_results ?st))) =
     dict_item (driver_points ?st) d"
    by (rule last_row_export_loop)
  have totals: "dict_item (driver_points ?st) d = points_of d ?all" for d
    using export_loop_driver_points [of env year ?rounds empty_export d] start
    by (simp add: points_of_simps)
  have final: "\<forall>d\<in>set (map Driver (all_results ?st)).
      dict_get (standings (driver_points ?st)) d =
        Some (CumulativePoints (last (filter (\<lambda>x. Driver x = d) (all_results ?st)))) \<and>
      dict_get (standings (driver_points ?st)) d = Some (points_of d ?all)"
  proof
    fix d
    assume d: "d \<in> set (map Driver (all_results ?st))"
    from last_row d
    have "CumulativePoints (last (filter (\<lambda>x. Driver x = d) (all_results ?st))) =
        dict_item (driver_points ?st) d"
      by (rule bspec)
    with lookup [OF d] totals [of d]
    show "dict_get (standings (driver_points ?st)) d =
        Some (CumulativePoints (last (filter (\<lambda>x. Driver x = d) (all_results ?st)))) \<and>
      dict_get (standings (driver_points ?st)) d = Some (points_of d ?all)"
      by simp
  qed
  show ?thesis
  proof (intro exI conjI)
    show "export_full_season_details env year =
      Some (all_results ?st, standings (driver_points ?st), standings (team_points ?st))"
      by (rule ret)
    show "map Driver (all_results ?st) = map Abbreviation ?all"
      by (rule drivers)
    show "map CumulativePoints (all_results ?st) = row_cumulative [] ?all"
      by (rule running)
    show "(\<forall>s\<in>set (loaded_sessions env year ?rounds).
        distinct (map Abbreviation (results s))) \<longrightarrow>
      map CumulativePoints (all_results ?st) =
      expected_cumulative [] (map results (loaded_sessions env year ?rounds))"
      by (rule cumulative)
    show "\<forall>d\<in>set (map Driver (all_results ?st)).
      dict_get (standings (driver_points ?st)) d =
        Some (CumulativePoints (last (filter (\<lambda>x. Driver x = d) (all_results ?st)))) \<and>
      dict_get (standings (driver_points ?st)) d = Some (points_of d ?all)"
      by (rule final)
  qed
qed

lemma season_2021_rows:
  "map Abbreviation (concat (map results [race_a, race_b])) =
     [''VER'', ''HAM'', ''PER'', ''ALO'', ''VER'', ''HAM'']"
  "distinct (map Abbreviation (results race_a))"
  "distinct (map Abbreviation (results race_b))"
  by (simp_all add: race_a_def race_b_def row_def)

lemma season_2021_expected:
  "expected_cumulative [] (map results [race_a, race_b]) = [25, 18, 15, 2, 50, 18]"
  by (simp add: race_a_def race_b_def row_def points_of_def)

lemma season_2021_points_of:
  "points_of ''VER'' (concat (map results [race_a, race_b])) = 50"
  "points_of ''HAM'' (concat (map results [race_a, race_b])) = 18"
  by (simp_all add: race_a_def race_b_def row_def points_of_def)

theorem cumulative_points_are_running_totals_witness:
  "get_race_schedule season 2021 =
     Some [\<lparr>RoundNumber = 1, EventDate = Some 100\<rparr>,
           \<lparr>RoundNumber = 2, EventDate = Some 200\<rparr>,
           \<lparr>RoundNumber = 3, EventDate = Some 300\<rparr>,
           \<lparr>RoundNumber = 4, EventDate = Some 900\<rparr>,
           \<lparr>RoundNumber = 5, EventDate = None\<rparr>] \<and>
   loaded_sessions season 2021 [1, 2, 3] = [race_a, race_b] \<and>
   distinct (map Abbreviation (results race_a)) \<and>
   distinct (map Abbreviation (results race_b)) \<and>
   (\<exists>rows driver_standings team_standings.
      export_full_season_details season 2021 = Some (rows, driver_standings, team_standings) \<and>
      map Driver rows = [''VER'', ''HAM'', ''PER'', ''ALO'', ''VER'', ''HAM''] \<and>
      map CumulativePoints rows = [25, 18, 15, 2, 50, 18] \<and>
      dict_get driver_standings ''VER'' = Some 50 \<and>
      dict_get driver_standings ''HAM'' = Some 18)"
proof -
  have uniq: "\<forall>s\<in>set (loaded_sessions season 2021
        (completed_rounds
          [\<lparr>RoundNumber = 1, EventDate = Some 100\<rparr>,
           \<lparr>RoundNumber = 2, EventDate = Some 200\<rparr>,
           \<lparr>RoundNumber = 3, EventDate = Some 300\<rparr>,
           \<lparr>RoundNumber = 4, EventDate = Some 900\<rparr>,
           \<lparr>RoundNumber = 5, EventDate = None\<rparr>] (clock season 0))).
      distinct (map Abbreviation (results s))"
    unfolding season_2021_rounds season_2021_loaded by (simp add: season_2021_rows)
  from cumulative_points_are_running_totals [OF season_2021]
  obtain rows driver_standings team_standings
    where ret: "export_full_season_details season 2021 =
        Some (rows, driver_standings, team_standings)"
      and drivers: "map Driver rows = map Abbreviation (concat (map results [race_a, race_b]))"
      and running: "map CumulativePoints rows =
        row_cumulative [] (concat (map results [race_a, race_b]))"
      and if_uniq: "(\<forall>s\<in>set [race_a, race_b]. distinct (map Abbreviation (results s))) \<longrightarrow>
        map CumulativePoints rows = expected_cumulative [] (map results [race_a, race_b])"
      and last_row: "\<forall>d\<in>set (map Driver rows).
        dict_get driver_standings d =
          Some (CumulativePoints (last (filter (\<lambda>x. Driver x = d) rows))) \<and>
        dict_get driver_standings d =
          Some (points_of d (concat (map results [race_a, race_b])))"
    unfolding season_2021_rounds season_2021_loaded by (elim exE conjE)
  from drivers have 1: "map Driver rows = [''VER'', ''HAM'', ''PER'', ''ALO'', ''VER'', ''HAM'']"
    by (simp only: season_2021_rows)
  from uniq have "\<forall>s\<in>set [race_a, race_b]. distinct (map Abbreviation (results s))"
    unfolding season_2021_rounds season_2021_loaded .
  with if_uniq
  have "map CumulativePoints rows = expected_cumulative [] (map results [race_a, race_b])"
    by (rule mp)
  then have 2: "map CumulativePoints rows = [25, 18, 15, 2, 50, 18]"
    by (simp only: season_2021_expected)
  have "''VER'' \<in> set (map Driver rows)"
    unfolding 1 by simp
  with last_row have "dict_get driver_standings ''VER'' =
      Some (points_of ''VER'' (concat (map results [race_a, race_b])))"
    by blast
  then have 3: "dict_get driver_standings ''VER'' = Some 50"
    by (simp only: season_2021_points_of)
  have "''HAM'' \<in> set (map Driver rows)"
    unfolding 1 by simp
  with last_row have "dict_get driver_standings ''HAM'' =
      Some (points_of ''HAM'' (concat (map results [race_a, race_b])))"
    by blast
  then have 4: "dict_get driver_standings ''HAM'' = Some 18"
    by (simp only: season_2021_points_of)
  from ret 1 2 3 4 have "\<exists>rows driver_standings team_standings.
      export_full_season_details season 2021 = Some (rows, driver_standings, team_standings) \<and>
      map Driver rows = [''VER'', ''HAM'', ''PER'', ''ALO'', ''VER'', ''HAM''] \<and>
      map CumulativePoints rows = [25, 18, 15, 2, 50, 18] \<and>
      dict_get driver_standings ''VER'' = Some 50 \<and>
      dict_get driver_standings ''HAM'' = Some 18"
    by (intro exI conjI)
  with season_2021 season_2021_loaded season_2021_rows(2,3) show ?thesis
    by (intro conjI)
qed

text \<open>
  The claim as it was stated fails when a round lists a driver twice: the first of the two
  rows carries the total before the second row is added, not the total of the round.
\<close>

lemma shared_drive_schedule:
  "get_race_schedule shared_drive_season 2021 = Some [\<lparr>RoundNumber = 1, EventDate = Some 100\<rparr>]"
  by (simp add: get_race_schedule_def shared_drive_season_def)

lemma shared_drive_rounds:
  "completed_rounds [\<lparr>RoundNumber = 1, EventDate = Some 100\<rparr>] (clock shared_drive_season 0) = [1]"
  by (simp add: completed_rounds_def is_completed_def shared_drive_season_def)

lemma shared_drive_loaded: "loaded_sessions shared_drive_season 2021 [1] = [race_c]"
  by (simp add: shared_drive_season_def)

lemma shared_drive_export:
  "map_option (\<lambda>(rows, standings). map CumulativePoints rows)
     (export_full_season_details shared_drive_season 2021) = Some [10, 10, 15]"
proof -
  let ?st = "export_loop shared_drive_season 2021 [1] empty_export"
  have start: "\<forall>d. dict_item (driver_points empty_export) d = points_of d []"
    by (simp add: empty_export_def dict_item_def dict_get_def points_of_simps)
  have none: "map CumulativePoints (all_results empty_export) = []"
    by (simp add: empty_export_def)
  have "map CumulativePoints (all_results ?st) =
      map CumulativePoints (all_results empty_export) @
      row_cumulative [] (concat (map results (loaded_sessions shared_drive_season 2021 [1])))"
    using start by (rule export_loop_row_cumulative)
  then have "map CumulativePoints (all_results ?st) = row_cumulative [] (results race_c)"
    unfolding none shared_drive_loaded by simp
  moreover have "row_cumulative [] (results race_c) = [10, 10, 15]"
    by (simp add: race_c_def row_def points_of_def)
  ultimately have "map CumulativePoints (all_results ?st) = [10, 10, 15]"
    by simp
  then show ?thesis
    unfolding export_full_season_details_def shared_drive_schedule option.case shared_drive_rounds
    by (simp add: Let_def)
qed

theorem cumulative_points_counterexample:
  "get_race_schedule shared_drive_season 2021 = Some [\<lparr>RoundNumber = 1, EventDate = Some 100\<rparr>] \<and>
   loaded_sessions shared_drive_season 2021
     (completed_rounds [\<lparr>RoundNumber = 1, EventDate = Some 100\<rparr>] (clock shared_drive_season 0)) =
     [race_c] \<and>
   map Abbreviation (results race_c) = [''FAN'', ''MOS'', ''FAN''] \<and>
   map_option (\<lambda>(rows, standings). map CumulativePoints rows)
     (export_full_season_details shared_drive_season 2021) = Some [10, 10, 15] \<and>
   expected_cumulative [] (map results [race_c]) = [15, 10, 15] \<and>
   [10, 10, 15] \<noteq> [15, 10, 15 :: rat]"
proof -
  have 1: "loaded_sessions shared_drive_season 2021
     (completed_rounds [\<lparr>RoundNumber = 1, EventDate = Some 100\<rparr>] (clock shared_drive_season 0)) =
     [race_c]"
    unfolding shared_drive_rounds by (rule shared_drive_loaded)
  have 2: "map Abbreviation (results race_c) = [''FAN'', ''MOS'', ''FAN'']"
    by (simp add: race_c_def row_def)
  have 3: "expected_cumulative [] (map results [race_c]) = [15, 10, 15]"
    by (simp add: race_c_def row_def points_of_def)
  have 4: "[10, 10, 15] \<noteq> [15, 10, 15 :: rat]"
    by simp
  from shared_drive_schedule 1 2 shared_drive_export 3 4 show ?thesis
    by (intro conjI)
qed

section \<open>Which rounds are processed\<close>

lemma is_completed_iff: "is_completed now e = (\<exists>t. EventDate e = Some t \<and> t < now)"
  by (simp add: is_completed_def split: option.splits)

lemma completed_rounds_eq:
  "completed_rounds race_schedule now =
   map RoundNumber (filter (\<lambda>e. \<exists>t. EventDate e = Some t \<and> t < now) race_schedule)"
  by (simp add: completed_rounds_def is_completed_iff [abs_def])

lemma sum_loaded_sessions:
  "(\<Sum>s\<leftarrow>loaded_sessions env year rounds. f s) =
   (\<Sum>r\<leftarrow>rounds. case get_session env year r of None \<Rightarrow> 0 | Some s \<Rightarrow> (f s :: 'a :: comm_monoid_add))"
  by (induction rounds) (simp_all split: option.splits)

lemma export_results_Round:
  "map Round (all_results (export_results rn name rows st)) =
   map Round (all_results st) @ replicate (length rows) rn"
proof (induction rows arbitrary: st)
  case Nil
  show ?case by simp
next
  case (Cons r rows)
  have "map Round (all_results (export_result rn name r st)) = map Round (all_results st) @ [rn]"
    by (simp add: export_result_def Let_def)
  with Cons.IH [of "export_result rn name r st"] show ?case
    by (simp add: replicate_app_Cons_same)
qed

lemma export_loop_Round:
  "map Round (all_results (export_loop env year rounds st)) =
   map Round (all_results st) @
   concat (map (\<lambda>r. case get_session env year r of
                        None \<Rightarrow> [] | Some s \<Rightarrow> replicate (length (results s)) r) rounds)"
  by (induction rounds arbitrary: st) (simp_all add: export_results_Round split: option.splits)

lemma processed_rounds:
  assumes "get_race_schedule env year = Some race_schedule"
  shows "\<exists>podiums dnfs rows driver_standings team_standings.
      count_podiums env year = Some podiums \<and> count_dnfs env year = Some dnfs \<and>
      export_full_season_details env year = Some (rows, driver_standings, team_standings) \<and>
      (\<forall>driver. count_of podiums driver =
         (\<Sum>r\<leftarrow>completed_rounds race_schedule (clock env 0).
            case get_session env year r of
              None \<Rightarrow> 0 | Some s \<Rightarrow> count_list (podium_drivers env s) driver)) \<and>
      (\<forall>driver. count_of dnfs driver =
         (\<Sum>r\<leftarrow>completed_rounds race_schedule (clock env 0).
            case get_session env year r of
              None \<Rightarrow> 0 | Some s \<Rightarrow> count_list (dnf_drivers s) driver)) \<and>
      map Round rows =
        concat (map (\<lambda>r. case get_session env year r of
                             None \<Rightarrow> [] | Some s \<Rightarrow> replicate (length (results s)) r)
                 (completed_rounds race_schedule (clock env 0)))"
proof -
  let ?rounds = "completed_rounds race_schedule (clock env 0)"
  let ?p = "podium_loop env year ?rounds []"
  let ?q = "dnf_loop env year ?rounds []"
  let ?st = "export_loop env year ?rounds empty_export"
  have empty: "count_of [] driver = 0" for driver
    by (simp add: count_of_def dict_get_def)
  have retp: "count_podiums env year = Some (sorted_counts ?p)"
    using assms by (simp add: count_podiums_def)
  have retq: "count_dnfs env year = Some (sorted_counts ?q)"
    using assms by (simp add: count_dnfs_def)
  have retx: "export_full_season_details env year =
      Some (all_results ?st, standings (driver_points ?st), standings (team_points ?st))"
    using assms by (simp add: export_full_season_details_def Let_def)
  have "count_of (sorted_counts ?p) driver = count_of ?p driver" for driver
    by (rule count_of_sorted_counts) (simp add: distinct_podium_loop)
  then have p: "\<forall>driver. count_of (sorted_counts ?p) driver =
      (\<Sum>r\<leftarrow>?rounds. case get_session env year r of
         None \<Rightarrow> 0 | Some s \<Rightarrow> count_list (podium_drivers env s) driver)"
    by (simp add: count_of_podium_loop empty sum_loaded_sessions)
  have "count_of (sorted_counts ?q) driver = count_of ?q driver" for driver
    by (rule count_of_sorted_counts) (simp add: distinct_dnf_loop)
  then have q: "\<forall>driver. count_of (sorted_counts ?q) driver =
      (\<Sum>r\<leftarrow>?rounds. case get_session env year r of
         None \<Rightarrow> 0 | Some s \<Rightarrow> count_list (dnf_drivers s) driver)"
    by (simp add: count_of_dnf_loop empty sum_loaded_sessions)
  have x: "map Round (all_results ?st) =
      concat (map (\<lambda>r. case get_session env year r of
                           None \<Rightarrow> [] | Some s \<Rightarrow> replicate (length (results s)) r) ?rounds)"
    using export_loop_Round [of env year ?rounds empty_export] by (simp add: empty_export_def)
  show ?thesis
  proof (intro exI conjI)
    show "count_podiums env year = Some (sorted_counts ?p)" by (rule retp)
    show "count_dnfs env year = Some (sorted_counts ?q)" by (rule retq)
    show "export_full_season_details env year =
      Some (all_results ?st, standings (driver_points ?st), standings (team_points ?st))"
      by (rule retx)
    show "\<forall>driver. count_of (sorted_counts ?p) driver =
      (\<Sum>r\<leftarrow>?rounds. case get_session env year r of
         None \<Rightarrow> 0 | Some s \<Rightarrow> count_list (podium_drivers env s) driver)" by (rule p)
    show "\<forall>driver. count_of (sorted_counts ?q) driver =
      (\<Sum>r\<leftarrow>?rounds. case get_session env year r of
         None \<Rightarrow> 0 | Some s \<Rightarrow> count_list (dnf_drivers s) driver)" by (rule q)
    show "map Round (all_results ?st) =
      concat (map (\<lambda>r. case get_session env year r of
                           None \<Rightarrow> [] | Some s \<Rightarrow> replicate (length (results s)) r) ?rounds)"
      by (rule x)
  qed
qed

text \<open>
  Claim C4. A round number is processed exactly when the schedule has an event of that
  round whose date is strictly earlier than the clock value read by the function. The
  results are made of these rounds, each in its place in the schedule: the podium and DNF
  counts of a driver are summed over them, the exported rows are the rows of these rounds
  one after the other, each under its round number, and the points and wins of a
  comparison are summed over them (a round whose session fails to load adds nothing).
  Events that are not completed (a date at or after the clock value, or no date) leave
  every result unchanged: removing them from the schedule gives the same results.
\<close>

theorem only_completed_rounds_are_processed:
  "(r \<in> set (completed_rounds race_schedule now)) =
     (\<exists>e\<in>set race_schedule. RoundNumber e = r \<and> (\<exists>t. EventDate e = Some t \<and> t < now)) \<and>
   count_podiums (keep_events (is_completed (clock env 0)) env) year = count_podiums env year \<and>
   count_dnfs (keep_events (is_completed (clock env 0)) env) year = count_dnfs env year \<and>
   export_full_season_details (keep_events (is_completed (clock env 0)) env) year =
     export_full_season_details env year \<and>
   season_counters env d1 d2 year (filter (is_completed now) race_schedule) now =
     season_counters env d1 d2 year race_schedule now \<and>
   (get_race_schedule env year = Some race_schedule \<longrightarrow>
      (\<exists>podiums dnfs rows driver_standings team_standings.
         count_podiums env year = Some podiums \<and> count_dnfs env year = Some dnfs \<and>
         export_full_season_details env year = Some (rows, driver_standings, team_standings) \<and>
         (\<forall>driver. count_of podiums driver =
            (\<Sum>r\<leftarrow>map RoundNumber
                   (filter (\<lambda>e. \<exists>t. EventDate e = Some t \<and> t < clock env 0) race_schedule).
               case get_session env year r of
                 None \<Rightarrow> 0 | Some s \<Rightarrow> count_list (podium_drivers env s) driver)) \<and>
         (\<forall>driver. count_of dnfs driver =
            (\<Sum>r\<leftarrow>map RoundNumber
                   (filter (\<lambda>e. \<exists>t. EventDate e = Some t \<and> t < clock env 0) race_schedule).
               case get_session env year r of
                 None \<Rightarrow> 0 | Some s \<Rightarrow> count_list (dnf_drivers s) driver)) \<and>
         map Round rows =
           concat (map (\<lambda>r. case get_session env year r of
                                None \<Rightarrow> [] | Some s \<Rightarrow> replicate (length (results s)) r)
                    (map RoundNumber
                      (filter (\<lambda>e. \<exists>t. EventDate e = Some t \<and> t < clock env 0) race_schedule))))) \<and>
   driver1_points (season_counters env d1 d2 year race_schedule now) =
     (\<Sum>r\<leftarrow>map RoundNumber (filter (\<lambda>e. \<exists>t. EventDate e = Some t \<and> t < now) race_schedule).
        case get_session env year r of None \<Rightarrow> 0 | Some s \<Rightarrow> round_points d1 s) \<and>
   driver2_points (season_counters env d1 d2 year race_schedule now) =
     (\<Sum>r\<leftarrow>map RoundNumber (filter (\<lambda>e. \<exists>t. EventDate e = Some t \<and> t < now) race_schedule).
        case get_session env year r of None \<Rightarrow> 0 | Some s \<Rightarrow> round_points d2 s) \<and>
   driver1_wins (season_counters env d1 d2 year race_schedule now) =
     (\<Sum>r\<leftarrow>map RoundNumber (filter (\<lambda>e. \<exists>t. EventDate e = Some t \<and> t < now) race_schedule).
        case get_session env year r of None \<Rightarrow> 0 | Some s \<Rightarrow> round_win d1 s) \<and>
   driver2_wins (season_counters env d1 d2 year race_schedule now) =
     (\<Sum>r\<leftarrow>map RoundNumber (filter (\<lambda>e. \<exists>t. EventDate e = Some t \<and> t < now) race_schedule).
        case get_session env year r of None \<Rightarrow> 0 | Some s \<Rightarrow> round_win d2 s)"
proof -
  let ?env = "keep_events (is_completed (clock env 0)) env"
  have same: "get_session ?env = get_session env"
    by (rule keep_events_simps)
  have same_sort: "sort_values_Position ?env = sort_values_Position env"
    by (rule keep_events_simps)
  have member: "(r \<in> set (completed_rounds race_schedule now)) =
     (\<exists>e\<in>set race_schedule. RoundNumber e = r \<and> (\<exists>t. EventDate e = Some t \<and> t < now))"
    by (auto simp: completed_rounds_def is_completed_def split: option.splits)
  have podiums: "count_podiums ?env year = count_podiums env year"
    by (cases "get_race_schedule env year")
       (simp_all add: count_podiums_def keep_events_simps podium_loop_cong [OF same same_sort]
          completed_rounds_kept)
  have dnfs: "count_dnfs ?env year = count_dnfs env year"
    by (cases "get_race_schedule env year")
       (simp_all add: count_dnfs_def keep_events_simps dnf_loop_cong [OF same]
          completed_rounds_kept)
  have export: "export_full_season_details ?env year = export_full_season_details env year"
    by (cases "get_race_schedule env year")
       (simp_all add: export_full_season_details_def keep_events_simps export_loop_cong [OF same]
          completed_rounds_kept)
  have counters: "season_counters env d1 d2 year (filter (is_completed now) race_schedule) now =
     season_counters env d1 d2 year race_schedule now"
    by (simp add: season_counters_def completed_rounds_kept)
  have processed: "get_race_schedule env year = Some race_schedule \<longrightarrow>
      (\<exists>podiums dnfs rows driver_standings team_standings.
         count_podiums env year = Some podiums \<and> count_dnfs env year = Some dnfs \<and>
         export_full_season_details env year = Some (rows, driver_standings, team_standings) \<and>
         (\<forall>driver. count_of podiums driver =
            (\<Sum>r\<leftarrow>map RoundNumber
                   (filter (\<lambda>e. \<exists>t. EventDate e = Some t \<and> t < clock env 0) race_schedule).
               case get_session env year r of
                 None \<Rightarrow> 0 | Some s \<Rightarrow> count_list (podium_drivers env s) driver)) \<and>
         (\<forall>driver. count_of dnfs driver =
            (\<Sum>r\<leftarrow>map RoundNumber
                   (filter (\<lambda>e. \<exists>t. EventDate e = Some t \<and> t < clock env 0) race_schedule).
               case get_session env year r of
                 None \<Rightarrow> 0 | Some s \<Rightarrow> count_list (dnf_drivers s) driver)) \<and>
         map Round rows =
           concat (map (\<lambda>r. case get_session env year r of
                                None \<Rightarrow> [] | Some s \<Rightarrow> replicate (length (results s)) r)
                    (map RoundNumber
                      (filter (\<lambda>e. \<exists>t. EventDate e = Some t \<and> t < clock env 0) race_schedule))))"
    using processed_rounds [of env year race_schedule] unfolding completed_rounds_eq
    by (intro impI)
  have c1: "driver1_points (season_counters env d1 d2 year race_schedule now) =
     (\<Sum>r\<leftarrow>map RoundNumber (filter (\<lambda>e. \<exists>t. EventDate e = Some t \<and> t < now) race_schedule).
        case get_session env year r of None \<Rightarrow> 0 | Some s \<Rightarrow> round_points d1 s)"
    unfolding season_counters_fields sum_loaded_sessions completed_rounds_eq ..
  have c2: "driver2_points (season_counters env d1 d2 year race_schedule now) =
     (\<Sum>r\<leftarrow>map RoundNumber (filter (\<lambda>e. \<exists>t. EventDate e = Some t \<and> t < now) race_schedule).
        case get_session env year r of None \<Rightarrow> 0 | Some s \<Rightarrow> round_points d2 s)"
    unfolding season_counters_fields sum_loaded_sessions completed_rounds_eq ..
  have c3: "driver1_wins (season_counters env d1 d2 year race_schedule now) =
     (\<Sum>r\<leftarrow>map RoundNumber (filter (\<lambda>e. \<exists>t. EventDate e = Some t \<and> t < now) race_schedule).
        case get_session env year r of None \<Rightarrow> 0 | Some s \<Rightarrow> round_win d1 s)"
    unfolding season_counters_fields sum_loaded_sessions completed_rounds_eq ..
  have c4: "driver2_wins (season_counters env d1 d2 year race_schedule now) =
     (\<Sum>r\<leftarrow>map RoundNumber (filter (\<lambda>e. \<exists>t. EventDate e = Some t \<and> t < now) race_schedule).
        case get_session env year r of None \<Rightarrow> 0 | Some s \<Rightarrow> round_win d2 s)"
    unfolding season_counters_fields sum_loaded_sessions completed_rounds_eq ..
  from member podiums dnfs export counters processed c1 c2 c3 c4 show ?thesis
    by (intro conjI)
qed

lemma season_2021_processed:
  "map RoundNumber (filter (\<lambda>e. \<exists>t. EventDate e = Some t \<and> t < clock season 0)
     [\<lparr>RoundNumber = 1, EventDate = Some 100\<rparr>,
      \<lparr>RoundNumber = 2, EventDate = Some 200\<rparr>,
      \<lparr>RoundNumber = 3, EventDate = Some 300\<rparr>,
      \<lparr>RoundNumber = 4, EventDate = Some 900\<rparr>,
      \<lparr>RoundNumber = 5, EventDate = None\<rparr>]) = [1, 2, 3]"
  by (simp add: season_clock)

lemma season_lengths: "length (results race_a) = 4" "length (results race_b) = 2"
  by (simp_all add: race_a_def race_b_def)

theorem only_completed_rounds_are_processed_witness:
  "get_race_schedule season 2021 =
     Some [\<lparr>RoundNumber = 1, EventDate = Some 100\<rparr>,
           \<lparr>RoundNumber = 2, EventDate = Some 200\<rparr>,
           \<lparr>RoundNumber = 3, EventDate = Some 300\<rparr>,
           \<lparr>RoundNumber = 4, EventDate = Some 900\<rparr>,
           \<lparr>RoundNumber = 5, EventDate = None\<rparr>] \<and>
   3 \<in> set (completed_rounds
       [\<lparr>RoundNumber = 1, EventDate = Some 100\<rparr>,
        \<lparr>RoundNumber = 2, EventDate = Some 200\<rparr>,
        \<lparr>RoundNumber = 3, EventDate = Some 300\<rparr>,
        \<lparr>RoundNumber = 4, EventDate = Some 900\<rparr>,
        \<lparr>RoundNumber = 5, EventDate = None\<rparr>] 500) \<and>
   4 \<notin> set (completed_rounds
       [\<lparr>RoundNumber = 1, EventDate = Some 100\<rparr>,
        \<lparr>RoundNumber = 2, EventDate = Some 200\<rparr>,
        \<lparr>RoundNumber = 3, EventDate = Some 300\<rparr>,
        \<lparr>RoundNumber = 4, EventDate = Some 900\<rparr>,
        \<lparr>RoundNumber = 5, EventDate = None\<rparr>] 500) \<and>
   5 \<notin> set (completed_rounds
       [\<lparr>RoundNumber = 1, EventDate = Some 100\<rparr>,
        \<lparr>RoundNumber = 2, EventDate = Some 200\<rparr>,
        \<lparr>RoundNumber = 3, EventDate = Some 300\<rparr>,
        \<lparr>RoundNumber = 4, EventDate = Some 900\<rparr>,
        \<lparr>RoundNumber = 5, EventDate = None\<rparr>] 500) \<and>
   (\<exists>podiums dnfs rows driver_standings team_standings.
      count_podiums season 2021 = Some podiums \<and> count_dnfs season 2021 = Some dnfs \<and>
      export_full_season_details season 2021 = Some (rows, driver_standings, team_standings) \<and>
      count_of podiums ''VER'' = 2 \<and> count_of podiums ''PER'' = 1 \<and>
      count_of dnfs ''HAM'' = 1 \<and> count_of dnfs ''VER'' = 0 \<and>
      map Round rows = [1, 1, 1, 1, 3, 3])"
proof -
  let ?sch = "[\<lparr>RoundNumber = 1, EventDate = Some 100\<rparr>,
        \<lparr>RoundNumber = 2, EventDate = Some 200\<rparr>,
        \<lparr>RoundNumber = 3, EventDate = Some 300\<rparr>,
        \<lparr>RoundNumber = 4, EventDate = Some 900\<rparr>,
        \<lparr>RoundNumber = (5::int), EventDate = None\<rparr>]"
  note inst = only_completed_rounds_are_processed [where env = season and year = 2021
      and race_schedule = ?sch and now = 500]
  have iff: "(r \<in> set (completed_rounds ?sch 500)) =
     (\<exists>e\<in>set ?sch. RoundNumber e = r \<and> (\<exists>t. EventDate e = Some t \<and> t < 500))" for r
    using inst [where r = r] by (rule conjunct1)
  have 3: "3 \<in> set (completed_rounds ?sch 500)"
    unfolding iff by simp
  have 4: "4 \<notin> set (completed_rounds ?sch 500)"
    unfolding iff by simp
  have 5: "5 \<notin> set (completed_rounds ?sch 500)"
    unfolding iff by simp
  from inst [THEN conjunct2, THEN conjunct2, THEN conjunct2, THEN conjunct2, THEN conjunct2,
      THEN conjunct1] season_2021
  have "\<exists>podiums dnfs rows driver_standings team_standings.
         count_podiums season 2021 = Some podiums \<and> count_dnfs season 2021 = Some dnfs \<and>
         export_full_season_details season 2021 = Some (rows, driver_standings, team_standings) \<and>
         (\<forall>driver. count_of podiums driver =
            (\<Sum>r\<leftarrow>[1, 2, 3].
               case get_session season 2021 r of
                 None \<Rightarrow> 0 | Some s \<Rightarrow> count_list (podium_drivers season s) driver)) \<and>
         (\<forall>driver. count_of dnfs driver =
            (\<Sum>r\<leftarrow>[1, 2, 3].
               case get_session season 2021 r of
                 None \<Rightarrow> 0 | Some s \<Rightarrow> count_list (dnf_drivers s) driver)) \<and>
         map Round rows =
           concat (map (\<lambda>r. case get_session season 2021 r of
                                None \<Rightarrow> [] | Some s \<Rightarrow> replicate (length (results s)) r)
                    [1, 2, 3])"
    unfolding season_2021_processed by (rule mp)
  then obtain podiums dnfs rows driver_standings team_standings
    where ret: "count_podiums season 2021 = Some podiums" "count_dnfs season 2021 = Some dnfs"
        "export_full_season_details season 2021 = Some (rows, driver_standings, team_standings)"
      and p: "\<forall>driver. count_of podiums driver =
            (\<Sum>r\<leftarrow>[1, 2, 3].
               case get_session season 2021 r of
                 None \<Rightarrow> 0 | Some s \<Rightarrow> count_list (podium_drivers season s) driver)"
      and q: "\<forall>driver. count_of dnfs driver =
            (\<Sum>r\<leftarrow>[1, 2, 3].
               case get_session season 2021 r of
                 None \<Rightarrow> 0 | Some s \<Rightarrow> count_list (dnf_drivers s) driver)"
      and x: "map Round rows =
           concat (map (\<lambda>r. case get_session season 2021 r of
                                None \<Rightarrow> [] | Some s \<Rightarrow> replicate (length (results s)) r)
                    [1, 2, 3])"
    by (elim exE conjE)
  from p have p': "count_of podiums driver =
      count_list [''VER'', ''HAM'', ''PER''] driver + count_list [''VER'', ''HAM''] driver"
    for driver
    by (simp add: season_sessions podium_a season_podium_b)
  from q have q': "count_of dnfs driver = count_list [''HAM''] driver" for driver
    by (simp add: season_sessions dnf_a dnf_b)
  have counts: "count_of podiums ''VER'' = 2" "count_of podiums ''PER'' = 1"
      "count_of dnfs ''HAM'' = 1" "count_of dnfs ''VER'' = 0"
    unfolding p' q' by simp_all
  from x have rounds: "map Round rows = [1, 1, 1, 1, 3, 3]"
    by (simp add: season_sessions season_lengths numeral_eq_Suc)
  from ret counts rounds
  have "\<exists>podiums dnfs rows driver_standings team_standings.
      count_podiums season 2021 = Some podiums \<and> count_dnfs season 2021 = Some dnfs \<and>
      export_full_season_details season 2021 = Some (rows, driver_standings, team_standings) \<and>
      count_of podiums ''VER'' = 2 \<and> count_of podiums ''PER'' = 1 \<and>
      count_of dnfs ''HAM'' = 1 \<and> count_of dnfs ''VER'' = 0 \<and>
      map Round rows = [1, 1, 1, 1, 3, 3]"
    by (intro exI conjI)
  with season_2021 3 4 5 show ?thesis
    by (intro conjI)
qed

end
